theory Spec2Isabelle
  imports Complex_Main "HOL-Library.Sublist"
begin

section \<open>JavaScript numbers\<close>

text \<open>
  A JavaScript \<open>number\<close> is an IEEE binary64 double. A finite double is represented
  by its rational value, and a sum, product or quotient of the program is the exact
  result rounded to the nearest double, ties to the even significand (\<open>round64\<close>).
  The sign of zero is not represented.
\<close>

type_synonym number = rat

type_synonym rounding = "rat \<Rightarrow> rat"

text \<open>The number of binary digits of a natural number.\<close>

fun bit_length :: "nat \<Rightarrow> nat" where
  "bit_length n = (if n = 0 then 0 else Suc (bit_length (n div 2)))"

declare bit_length.simps [simp del]

definition pow2 :: "int \<Rightarrow> rat" where
  "pow2 k = (if 0 \<le> k then 2 ^ nat k else 1 / 2 ^ nat (- k))"

text \<open>For \<open>x > 0\<close>, the exponent \<open>e\<close> with \<open>2 ^ e \<le> x < 2 ^ (e + 1)\<close>.\<close>

definition exponent2 :: "rat \<Rightarrow> int" where
  "exponent2 x =
     (if 1 \<le> x then int (bit_length (nat \<lfloor>x\<rfloor>)) - 1
      else - int (bit_length (nat (\<lceil>1 / x\<rceil> - 1))))"

definition round_half_even :: "rat \<Rightarrow> int" where
  "round_half_even q =
     (let f = \<lfloor>q\<rfloor>; d = q - of_int f
      in if d < 1 / 2 then f else if 1 / 2 < d then f + 1 else if even f then f else f + 1)"

text \<open>
  Rounding to 53 significant bits, with the smallest exponent of the format for the
  subnormal numbers. A result of magnitude \<open>2 ^ 1024\<close> or more stands for an overflow.
\<close>

definition round64 :: rounding where
  "round64 x =
     (if x = 0 then 0
      else (let e = max (exponent2 \<bar>x\<bar>) (- 1022); u = pow2 (e - 52)
            in of_int (round_half_even (x / u)) * u))"

text \<open>Exact rational arithmetic: nothing is rounded.\<close>

definition exact :: rounding where
  "exact x = x"

text \<open>A number that may also be \<open>NaN\<close> or infinite, where the program can produce these.\<close>

datatype jsnum = NaN | Finite rat | PosInfinity | NegInfinity

definition to_double :: "rat \<Rightarrow> jsnum" where
  "to_double x =
     (let y = round64 x
      in if 2 ^ 1024 \<le> y then PosInfinity
         else if y \<le> - (2 ^ 1024) then NegInfinity
         else Finite y)"

fun js_sub :: "jsnum \<Rightarrow> jsnum \<Rightarrow> jsnum" where
  "js_sub (Finite a) (Finite b) = to_double (a - b)"
| "js_sub (Finite a) PosInfinity = NegInfinity"
| "js_sub (Finite a) NegInfinity = PosInfinity"
| "js_sub PosInfinity (Finite b) = PosInfinity"
| "js_sub PosInfinity NegInfinity = PosInfinity"
| "js_sub NegInfinity (Finite b) = NegInfinity"
| "js_sub NegInfinity PosInfinity = NegInfinity"
| "js_sub a b = NaN"

fun js_mul :: "jsnum \<Rightarrow> jsnum \<Rightarrow> jsnum" where
  "js_mul NaN b = NaN"
| "js_mul a NaN = NaN"
| "js_mul (Finite a) (Finite b) = to_double (a * b)"
| "js_mul (Finite a) b =
     (if a = 0 then NaN else if (0 < a) = (b = PosInfinity) then PosInfinity else NegInfinity)"
| "js_mul a (Finite b) =
     (if b = 0 then NaN else if (0 < b) = (a = PosInfinity) then PosInfinity else NegInfinity)"
| "js_mul a b = (if a = b then PosInfinity else NegInfinity)"

text \<open>\<open>Math.max\<close> of two numbers.\<close>

fun js_max :: "jsnum \<Rightarrow> jsnum \<Rightarrow> jsnum" where
  "js_max NaN b = NaN"
| "js_max a NaN = NaN"
| "js_max PosInfinity b = PosInfinity"
| "js_max a PosInfinity = PosInfinity"
| "js_max NegInfinity b = b"
| "js_max a NegInfinity = a"
| "js_max (Finite a) (Finite b) = Finite (max a b)"

section \<open>Budget ledger (src/lib/usage.ts)\<close>

text \<open>
  Conventions of the embedding.
  \<^item> A JavaScript \<open>number\<close> is the rational value of a finite double. Every
    function takes the rounding \<open>rnd\<close> of the arithmetic as its first argument and applies
    it to each decimal literal, sum and product of the source: with \<open>round64\<close> the
    arithmetic is that of the program, with \<open>exact\<close> it is exact rational arithmetic.
    Amounts stay finite: overflow and \<open>NaN\<close> are outside the model of the ledger.
  \<^item> A clock reading \<open>new Date().toISOString()\<close> is an input string; every call of
    \<open>new Date()\<close> in the source is one argument of the function that makes it.
    \<open>.split("T")[0]\<close> keeps the characters before the first \<open>T\<close>.
  \<^item> The file \<open>data/budget.json\<close> is a \<open>BudgetConfig option\<close>: \<open>None\<close> when the file is
    absent or does not parse, \<open>Some b\<close> when it holds a document of the declared
    shape. Functions that write the file return the new file content.
  \<^item> Message strings are constructors that carry the numbers the message prints.
  \<^item> \<open>{ ...DEFAULT_BUDGET }\<close> shares the accounting block of \<open>DEFAULT_BUDGET\<close>. Every
    function that changes the block saves the ledger before it returns, and the next
    \<open>loadBudget\<close> reads the file, so the defaults are read only while no file exists and
    the sharing is not modelled.
\<close>


record LocalTracking =
  today :: string
  todayPostReads :: number
  todayCost :: number
  rollingPostReads :: number
  rollingCost :: number
  lastReset :: string

record BudgetConfig =
  dailyLimitUsd :: number
  monthlyLimitUsd :: number
  warnThreshold :: number
  localTracking :: LocalTracking

type_synonym budget_file = "BudgetConfig option"

definition isoDate :: "string \<Rightarrow> string" where
  "isoDate stamp = takeWhile (\<lambda>c. c \<noteq> CHR ''T'') stamp"

text \<open>\<open>DEFAULT_BUDGET\<close> is built once, when the module is loaded, from two clock readings.\<close>

definition DEFAULT_BUDGET :: "rounding \<Rightarrow> string \<Rightarrow> string \<Rightarrow> BudgetConfig" where
  "DEFAULT_BUDGET rnd boot1 boot2 =
     \<lparr> dailyLimitUsd = 0, monthlyLimitUsd = 0, warnThreshold = rnd 0.8,
       localTracking =
         \<lparr> today = isoDate boot1, todayPostReads = 0, todayCost = 0,
           rollingPostReads = 0, rollingCost = 0, lastReset = boot2 \<rparr> \<rparr>"

definition loadBudget :: "rounding \<Rightarrow> string \<Rightarrow> string \<Rightarrow> string \<Rightarrow> budget_file \<Rightarrow> BudgetConfig" where
  "loadBudget rnd boot1 boot2 now disk =
     (case disk of
        None \<Rightarrow> DEFAULT_BUDGET rnd boot1 boot2
      | Some raw \<Rightarrow>
          (let day = isoDate now in
           if today (localTracking raw) \<noteq> day
           then raw \<lparr> localTracking :=
                  (localTracking raw) \<lparr> today := day, todayPostReads := 0, todayCost := 0 \<rparr> \<rparr>
           else raw))"

definition saveBudget :: "BudgetConfig \<Rightarrow> budget_file \<Rightarrow> budget_file" where
  "saveBudget budget disk = Some budget"

datatype warning =
    DAILY_BUDGET_EXCEEDED number number
  | Budget_warning number number
  | MONTHLY_BUDGET_EXCEEDED number number

text \<open>
  The in-memory ledger of \<open>recordUsage\<close> after its updates, before it is saved:
  \<open>now1\<close> is the reading inside \<open>loadBudget\<close>, \<open>now2\<close> the one of \<open>recordUsage\<close> itself.
\<close>

definition recordUsage_budget ::
  "rounding \<Rightarrow> string \<Rightarrow> string \<Rightarrow> string \<Rightarrow> string \<Rightarrow> number \<Rightarrow> budget_file \<Rightarrow> BudgetConfig" where
  "recordUsage_budget rnd boot1 boot2 now1 now2 postReads disk =
     (let budget = loadBudget rnd boot1 boot2 now1 disk;
          cost = rnd (postReads * rnd 0.005);
          day = isoDate now2;
          lt0 = localTracking budget;
          lt1 = (if today lt0 \<noteq> day
                 then lt0 \<lparr> today := day, todayPostReads := 0, todayCost := 0 \<rparr>
                 else lt0);
          lt2 = lt1 \<lparr> todayPostReads := rnd (todayPostReads lt1 + postReads),
                      todayCost := rnd (todayCost lt1 + cost),
                      rollingPostReads := rnd (rollingPostReads lt1 + postReads),
                      rollingCost := rnd (rollingCost lt1 + cost) \<rparr>
      in budget \<lparr> localTracking := lt2 \<rparr>)"

definition check_limits :: "rounding \<Rightarrow> BudgetConfig \<Rightarrow> warning option" where
  "check_limits rnd budget =
     (if dailyLimitUsd budget > 0 \<and>
         todayCost (localTracking budget) \<ge> dailyLimitUsd budget
      then Some (DAILY_BUDGET_EXCEEDED (todayCost (localTracking budget)) (dailyLimitUsd budget))
      else if dailyLimitUsd budget > 0 \<and>
         todayCost (localTracking budget) \<ge> rnd (dailyLimitUsd budget * warnThreshold budget)
      then Some (Budget_warning (todayCost (localTracking budget)) (dailyLimitUsd budget))
      else if monthlyLimitUsd budget > 0 \<and>
         rollingCost (localTracking budget) \<ge> monthlyLimitUsd budget
      then Some (MONTHLY_BUDGET_EXCEEDED (rollingCost (localTracking budget)) (monthlyLimitUsd budget))
      else None)"

definition recordUsage ::
  "rounding \<Rightarrow> string \<Rightarrow> string \<Rightarrow> string \<Rightarrow> string \<Rightarrow> number \<Rightarrow> budget_file
     \<Rightarrow> warning option \<times> budget_file" where
  "recordUsage rnd boot1 boot2 now1 now2 postReads disk =
     (let budget = recordUsage_budget rnd boot1 boot2 now1 now2 postReads disk
      in (check_limits rnd budget, saveBudget budget disk))"

datatype blocked =
    Blocked_daily number number number
  | Blocked_monthly number number number

definition checkBudget ::
  "rounding \<Rightarrow> string \<Rightarrow> string \<Rightarrow> string \<Rightarrow> number \<Rightarrow> budget_file \<Rightarrow> blocked option \<times> budget_file" where
  "checkBudget rnd boot1 boot2 now estimatedPostReads disk =
     (let budget = loadBudget rnd boot1 boot2 now disk;
          estimatedCost = rnd (estimatedPostReads * rnd 0.005)
      in if dailyLimitUsd budget > 0 \<and>
            rnd (todayCost (localTracking budget) + estimatedCost) > dailyLimitUsd budget
         then (Some (Blocked_daily (todayCost (localTracking budget)) estimatedCost
                        (dailyLimitUsd budget)), disk)
         else if monthlyLimitUsd budget > 0 \<and>
            rnd (rollingCost (localTracking budget) + estimatedCost) > monthlyLimitUsd budget
         then (Some (Blocked_monthly (rollingCost (localTracking budget)) estimatedCost
                        (monthlyLimitUsd budget)), disk)
         else (None, disk))"

subsection \<open>The \<open>usage budget\<close> sub-commands of the command line (cmdUsage)\<close>

text \<open>
  \<open>parseFloat(args[3])\<close> is \<open>None\<close> when it is \<open>NaN\<close>. A rejected limit ends the process
  before anything is saved.
\<close>

definition budget_set_daily ::
  "rounding \<Rightarrow> string \<Rightarrow> string \<Rightarrow> string \<Rightarrow> number option \<Rightarrow> budget_file \<Rightarrow> budget_file" where
  "budget_set_daily rnd boot1 boot2 now arg disk =
     (let budget = loadBudget rnd boot1 boot2 now disk in
      case arg of
        None \<Rightarrow> disk
      | Some limit \<Rightarrow>
          if limit < 0 then disk
          else saveBudget (budget \<lparr> dailyLimitUsd := limit \<rparr>) disk)"

definition budget_set_monthly ::
  "rounding \<Rightarrow> string \<Rightarrow> string \<Rightarrow> string \<Rightarrow> number option \<Rightarrow> budget_file \<Rightarrow> budget_file" where
  "budget_set_monthly rnd boot1 boot2 now arg disk =
     (let budget = loadBudget rnd boot1 boot2 now disk in
      case arg of
        None \<Rightarrow> disk
      | Some limit \<Rightarrow>
          if limit < 0 then disk
          else saveBudget (budget \<lparr> monthlyLimitUsd := limit \<rparr>) disk)"

text \<open>
  \<open>usage budget reset\<close>: \<open>now\<close> is the reading of \<open>loadBudget\<close>, \<open>now1\<close> and \<open>now2\<close> are the
  two readings of the new accounting block.
\<close>

definition budget_reset ::
  "rounding \<Rightarrow> string \<Rightarrow> string \<Rightarrow> string \<Rightarrow> string \<Rightarrow> string \<Rightarrow> budget_file \<Rightarrow> budget_file" where
  "budget_reset rnd boot1 boot2 now now1 now2 disk =
     (let budget = loadBudget rnd boot1 boot2 now disk in
      saveBudget
        (budget \<lparr> localTracking :=
           \<lparr> today = isoDate now1, todayPostReads = 0, todayCost = 0,
             rollingPostReads = 0, rollingCost = 0, lastReset = now2 \<rparr> \<rparr>)
        disk)"

subsection \<open>Sequences of ledger operations\<close>

text \<open>Every operation carries the clock readings it makes, in the order it makes them.\<close>

datatype ledger_op =
    Record string string number
  | Check string number
  | SetDaily string "number option"
  | SetMonthly string "number option"
  | Reset string string string

fun ledger_step :: "rounding \<Rightarrow> string \<Rightarrow> string \<Rightarrow> ledger_op \<Rightarrow> budget_file \<Rightarrow> budget_file" where
  "ledger_step rnd b1 b2 (Record now1 now2 n) disk = snd (recordUsage rnd b1 b2 now1 now2 n disk)"
| "ledger_step rnd b1 b2 (Check now n) disk = snd (checkBudget rnd b1 b2 now n disk)"
| "ledger_step rnd b1 b2 (SetDaily now arg) disk = budget_set_daily rnd b1 b2 now arg disk"
| "ledger_step rnd b1 b2 (SetMonthly now arg) disk = budget_set_monthly rnd b1 b2 now arg disk"
| "ledger_step rnd b1 b2 (Reset now now1 now2) disk = budget_reset rnd b1 b2 now now1 now2 disk"

fun ledger_run :: "rounding \<Rightarrow> string \<Rightarrow> string \<Rightarrow> ledger_op list \<Rightarrow> budget_file \<Rightarrow> budget_file" where
  "ledger_run rnd b1 b2 [] disk = disk"
| "ledger_run rnd b1 b2 (op # ops) disk = ledger_run rnd b1 b2 ops (ledger_step rnd b1 b2 op disk)"

text \<open>The units of an operation, and the operations that record (on the day \<open>d\<close>).\<close>

fun recorded_units :: "ledger_op \<Rightarrow> number" where
  "recorded_units (Record now1 now2 n) = n"
| "recorded_units other = 0"

fun is_record :: "ledger_op \<Rightarrow> bool" where
  "is_record (Record now1 now2 n) = True"
| "is_record other = False"

fun is_record_on :: "string \<Rightarrow> ledger_op \<Rightarrow> bool" where
  "is_record_on d (Record now1 now2 n) = (isoDate now1 = d \<and> isoDate now2 = d)"
| "is_record_on d other = False"



text \<open>
  A ledger whose caps are the doubles of the given decimals, with the default threshold
  and zeroed accounting for 2026-02-01.
\<close>

definition fresh_ledger :: "rounding \<Rightarrow> number \<Rightarrow> number \<Rightarrow> BudgetConfig" where
  "fresh_ledger rnd daily monthly =
     \<lparr> dailyLimitUsd = rnd daily, monthlyLimitUsd = rnd monthly, warnThreshold = rnd 0.8,
       localTracking =
         \<lparr> today = ''2026-02-01'', todayPostReads = 0, todayCost = 0,
           rollingPostReads = 0, rollingCost = 0, lastReset = ''2026-02-01T00:00:00.000Z'' \<rparr> \<rparr>"

section \<open>Remote fetch client (src/lib/api.ts)\<close>

text \<open>
  Conventions of the embedding.
  \<^item> A property that a JSON object may lack is an \<open>option\<close>; \<open>None\<close> is \<open>undefined\<close>.
    The payload is otherwise of the documented shape: items and users are objects,
    identities and names are strings, metrics are numbers.
  \<^item> An entity object (a url, a mention, a hashtag) is represented by the one property
    the code reads from it.
  \<^item> The fields \<open>id\<close> and \<open>text\<close> of a \<open>Tweet\<close> are called \<open>tweet_id\<close> and \<open>tweet_text\<close>,
    the property \<open>includes\<close> of a response \<open>includes'\<close>.
    The fields copied from the payload unchecked stay \<open>undefined\<close> when the payload
    lacks them, so they are options too.
  \<^item> The side table \<open>users\<close> is a plain JavaScript object: it has its own properties,
    it inherits the functions of \<open>Object.prototype\<close>, and an assignment to its property
    \<open>__proto__\<close> replaces its prototype.
  \<^item> Characters are ASCII.
\<close>

record Metrics =
  likes :: number
  retweets :: number
  replies :: number
  quotes :: number
  impressions :: number
  bookmarks :: number

record Tweet =
  tweet_id :: "string option"
  tweet_text :: "string option"
  author_id :: "string option"
  username :: string
  name :: string
  created_at :: "string option"
  conversation_id :: "string option"
  metrics :: Metrics
  urls :: "string list"
  mentions :: "string list"
  hashtags :: "string list"
  tweet_url :: string

record RawUser =
  user_id :: "string option"
  user_username :: "string option"
  user_name :: "string option"

record RawMetrics =
  like_count :: "number option"
  retweet_count :: "number option"
  reply_count :: "number option"
  quote_count :: "number option"
  impression_count :: "number option"
  bookmark_count :: "number option"

record RawEntities =
  entity_urls :: "string option list option"
  entity_mentions :: "string option list option"
  entity_hashtags :: "string option list option"

record RawTweet =
  raw_id :: "string option"
  raw_text :: "string option"
  raw_author_id :: "string option"
  raw_created_at :: "string option"
  raw_conversation_id :: "string option"
  public_metrics :: "RawMetrics option"
  entities :: "RawEntities option"

record RawIncludes =
  users :: "RawUser list option"

record RawMeta =
  next_token :: "string option"

record RawResponse =
  data :: "RawTweet list option"
  includes' :: "RawIncludes option"
  meta :: "RawMeta option"

subsection \<open>JavaScript operators used by the client\<close>

text \<open>A string is falsy when it is \<open>undefined\<close> or empty, a number when it is \<open>undefined\<close> or zero.\<close>

definition truthy :: "string option \<Rightarrow> bool" where
  "truthy x = (case x of None \<Rightarrow> False | Some s \<Rightarrow> s \<noteq> [])"

definition or_string :: "string option \<Rightarrow> string \<Rightarrow> string" where
  "or_string x d = (case x of None \<Rightarrow> d | Some s \<Rightarrow> if s = [] then d else s)"

definition or_number :: "number option \<Rightarrow> number \<Rightarrow> number" where
  "or_number x d = (case x of None \<Rightarrow> d | Some n \<Rightarrow> if n = 0 then d else n)"

definition or_int :: "int option \<Rightarrow> int \<Rightarrow> int" where
  "or_int x d = (case x of None \<Rightarrow> d | Some n \<Rightarrow> if n = 0 then d else n)"

definition or_list :: "'a list option \<Rightarrow> 'a list" where
  "or_list x = (case x of None \<Rightarrow> [] | Some xs \<Rightarrow> xs)"

text \<open>\<open>.filter(Boolean)\<close> on a list of strings that may be \<open>undefined\<close>.\<close>

definition filter_Boolean :: "string option list \<Rightarrow> string list" where
  "filter_Boolean xs = map (\<lambda>x. or_string x []) (filter truthy xs)"

text \<open>A value used as a property key or inside a template string: \<open>undefined\<close> is printed.\<close>

definition to_string :: "string option \<Rightarrow> string" where
  "to_string x = (case x of None \<Rightarrow> ''undefined'' | Some s \<Rightarrow> s)"

subsection \<open>parseTweets\<close>

definition empty_user :: RawUser where
  "empty_user = \<lparr> user_id = None, user_username = None, user_name = None \<rparr>"

text \<open>
  The object \<open>users\<close>: its own properties, and the user object that an assignment to
  \<open>__proto__\<close> has made its prototype, if any.
\<close>

record users_object =
  own :: "string \<rightharpoonup> RawUser"
  proto :: "RawUser option"

text \<open>\<open>users[k] = u\<close>\<close>

definition set_property :: "users_object \<Rightarrow> string \<Rightarrow> RawUser \<Rightarrow> users_object" where
  "set_property table k u =
     (if k = ''__proto__'' then table \<lparr> proto := Some u \<rparr>
      else table \<lparr> own := (own table)(k \<mapsto> u) \<rparr>)"

definition users_table :: "RawUser list \<Rightarrow> users_object" where
  "users_table us =
     fold (\<lambda>u table. set_property table (to_string (user_id u)) u) us
       \<lparr> own = Map.empty, proto = None \<rparr>"

text \<open>The functions that every object inherits from \<open>Object.prototype\<close>, and their names.\<close>

definition Object_prototype_functions :: "string list" where
  "Object_prototype_functions =
     [''constructor'', ''toString'', ''toLocaleString'', ''valueOf'', ''hasOwnProperty'',
      ''isPrototypeOf'', ''propertyIsEnumerable'', ''__defineGetter__'', ''__defineSetter__'',
      ''__lookupGetter__'', ''__lookupSetter__'']"

definition function_name :: "string \<Rightarrow> string" where
  "function_name k = (if k = ''constructor'' then ''Object'' else k)"

text \<open>
  \<open>users[k] || {}\<close>, as far as \<open>parseTweets\<close> reads it (the properties \<open>username\<close> and
  \<open>name\<close> of the value). An own property is a user. The key \<open>__proto__\<close> gives the
  prototype: the user that was assigned to it, or \<open>Object.prototype\<close>, which has neither
  property. An inherited function has its function name as \<open>name\<close> and no \<open>username\<close>.
  A property inherited from a prototype user is one of that user's strings, numbers
  or metric blocks, which have neither property, like a missing key.
\<close>

definition get_property :: "users_object \<Rightarrow> string \<Rightarrow> RawUser" where
  "get_property table k =
     (case own table k of
        Some u \<Rightarrow> u
      | None \<Rightarrow>
          if k = ''__proto__'' then (case proto table of Some u \<Rightarrow> u | None \<Rightarrow> empty_user)
          else if k \<in> set Object_prototype_functions
          then \<lparr> user_id = None, user_username = None, user_name = Some (function_name k) \<rparr>
          else empty_user)"

definition empty_metrics :: RawMetrics where
  "empty_metrics =
     \<lparr> like_count = None, retweet_count = None, reply_count = None,
       quote_count = None, impression_count = None, bookmark_count = None \<rparr>"

text \<open>The body of the arrow function that \<open>parseTweets\<close> maps over \<open>raw.data\<close>.\<close>

definition parseTweet :: "users_object \<Rightarrow> RawTweet \<Rightarrow> Tweet" where
  "parseTweet table t =
     (let u = get_property table (to_string (raw_author_id t));
          m = (case public_metrics t of None \<Rightarrow> empty_metrics | Some v \<Rightarrow> v)
      in \<lparr> tweet_id = raw_id t,
           tweet_text = raw_text t,
           author_id = raw_author_id t,
           username = or_string (user_username u) ''?'',
           name = or_string (user_name u) ''?'',
           created_at = raw_created_at t,
           conversation_id = raw_conversation_id t,
           metrics =
             \<lparr> likes = or_number (like_count m) 0,
               retweets = or_number (retweet_count m) 0,
               replies = or_number (reply_count m) 0,
               quotes = or_number (quote_count m) 0,
               impressions = or_number (impression_count m) 0,
               bookmarks = or_number (bookmark_count m) 0 \<rparr>,
           urls = filter_Boolean
             (or_list (case entities t of None \<Rightarrow> None | Some e \<Rightarrow> entity_urls e)),
           mentions = filter_Boolean
             (or_list (case entities t of None \<Rightarrow> None | Some e \<Rightarrow> entity_mentions e)),
           hashtags = filter_Boolean
             (or_list (case entities t of None \<Rightarrow> None | Some e \<Rightarrow> entity_hashtags e)),
           tweet_url = ''https://x.com/'' @ or_string (user_username u) ''?'' @ ''/status/''
             @ to_string (raw_id t) \<rparr>)"

definition parseTweets :: "RawResponse \<Rightarrow> Tweet list" where
  "parseTweets raw =
     (case data raw of
        None \<Rightarrow> []
      | Some items \<Rightarrow>
          map (parseTweet
                 (users_table
                    (or_list (case includes' raw of None \<Rightarrow> None | Some i \<Rightarrow> users i))))
              items)"

subsection \<open>parseInt, dates, parseSince\<close>

definition is_digit :: "char \<Rightarrow> bool" where
  "is_digit c = (48 \<le> (of_char c :: nat) \<and> (of_char c :: nat) \<le> 57)"

definition is_hex_digit :: "char \<Rightarrow> bool" where
  "is_hex_digit c =
     (is_digit c \<or> (65 \<le> (of_char c :: nat) \<and> (of_char c :: nat) \<le> 70)
                \<or> (97 \<le> (of_char c :: nat) \<and> (of_char c :: nat) \<le> 102))"

definition digit_value :: "char \<Rightarrow> int" where
  "digit_value c =
     (if is_digit c then of_char c - 48
      else if (of_char c :: nat) \<le> 70 then of_char c - 55
      else of_char c - 87)"

definition is_space :: "char \<Rightarrow> bool" where
  "is_space c = ((of_char c :: nat) \<in> {9, 10, 11, 12, 13, 32})"

definition digits_value :: "int \<Rightarrow> string \<Rightarrow> int" where
  "digits_value radix ds = foldl (\<lambda>acc c. acc * radix + digit_value c) 0 ds"

text \<open>
  \<open>parseInt\<close> with no radix: leading white space, a sign, a \<open>0x\<close> prefix, then the longest
  run of digits. The result is \<open>NaN\<close> when there is no digit, and otherwise the double
  nearest to the integer that the digits denote (for more than twenty decimal digits the
  language lets an engine approximate the integer first; the model does not).
\<close>

definition parseInt :: "string \<Rightarrow> jsnum" where
  "parseInt s =
     (let s1 = dropWhile is_space s;
          negative = (take 1 s1 = ''-'');
          s2 = (if take 1 s1 = ''+'' \<or> take 1 s1 = ''-'' then drop 1 s1 else s1);
          hex = (take 2 s2 = ''0x'' \<or> take 2 s2 = ''0X'');
          s3 = (if hex then drop 2 s2 else s2);
          z = takeWhile (if hex then is_hex_digit else is_digit) s3
      in if z = [] then NaN
         else to_double
                (of_int ((if negative then - 1 else 1) * digits_value (if hex then 16 else 10) z)))"

text \<open>
  A \<open>Date\<close> is its time value in milliseconds, \<open>None\<close> for an invalid date. \<open>ISO v\<close> stands
  for the string that \<open>toISOString\<close> prints for the time value \<open>v\<close>.
\<close>

datatype isotime = ISO int

datatype error =
    ConfigError
  | FetchFailed
  | RateLimited jsnum
  | XApiError int string
  | SyntaxError
  | RangeError

definition new_Date :: "int option \<Rightarrow> int option" where
  "new_Date v =
     (case v of
        None \<Rightarrow> None
      | Some x \<Rightarrow> if \<bar>x\<bar> \<le> 8640000000000000 then Some x else None)"

text \<open>
  \<open>new Date(v)\<close> for a number \<open>v\<close>: the date is invalid when \<open>v\<close> is not finite or beyond
  8.64e15 milliseconds; otherwise its time value is \<open>v\<close> without its fraction.
\<close>

fun new_Date_number :: "jsnum \<Rightarrow> int option" where
  "new_Date_number (Finite v) =
     (if \<bar>v\<bar> \<le> 8640000000000000 then Some (if 0 \<le> v then \<lfloor>v\<rfloor> else \<lceil>v\<rceil>) else None)"
| "new_Date_number other = None"

definition toISOString :: "int option \<Rightarrow> error + isotime" where
  "toISOString d = (case d of None \<Rightarrow> Inl RangeError | Some v \<Rightarrow> Inr (ISO v))"

text \<open>\<open>since.match(/^(\d+)(m|h|d)$/)\<close>: the two groups of a match.\<close>

definition match_shorthand :: "string \<Rightarrow> (string \<times> char) option" where
  "match_shorthand since =
     (if since \<noteq> [] \<and> butlast since \<noteq> [] \<and> list_all is_digit (butlast since)
         \<and> last since \<in> set ''mhd''
      then Some (butlast since, last since) else None)"

text \<open>
  \<open>dateParse\<close> is the date parser of the JavaScript engine (\<open>None\<close> when the string is not
  a date), \<open>now\<close> the reading of \<open>Date.now()\<close>, a whole number of milliseconds. The result is \<open>Inl\<close> when \<open>parseSince\<close>
  throws, \<open>Inr None\<close> when it returns \<open>null\<close>.
\<close>

definition parseSince ::
  "(string \<Rightarrow> int option) \<Rightarrow> int \<Rightarrow> string \<Rightarrow> error + isotime option" where
  "parseSince dateParse now since =
     (case match_shorthand since of
        Some (digits, unit) \<Rightarrow>
          (let num = parseInt digits;
               ms = (if unit = CHR ''m'' then js_mul num (Finite 60000)
                     else if unit = CHR ''h'' then js_mul num (Finite 3600000)
                     else js_mul num (Finite 86400000));
               startTime = new_Date_number (js_sub (Finite (of_int now)) ms)
           in case toISOString startTime of
                Inl e \<Rightarrow> Inl e
              | Inr stamp \<Rightarrow> Inr (Some stamp))
      | None \<Rightarrow>
          if CHR ''T'' \<in> set since \<or> CHR ''-'' \<in> set since
          then (case toISOString (new_Date (dateParse since)) of
                  Inl e \<Rightarrow> Inr None
                | Inr stamp \<Rightarrow> Inr (Some stamp))
          else Inr None)"

subsection \<open>apiGet\<close>

text \<open>
  The credential is looked up in the environment variable, then in the configuration
  file (\<open>conf_token\<close> is the match of the regular expression there, if any).
\<close>

definition getToken :: "string option \<Rightarrow> string option \<Rightarrow> error + string" where
  "getToken env_token conf_token =
     (if truthy env_token then Inr (to_string env_token)
      else (case conf_token of None \<Rightarrow> Inl ConfigError | Some t \<Rightarrow> Inr t))"

text \<open>
  A response: the status, the header \<open>x-rate-limit-reset\<close> (\<open>None\<close> when the response has
  none), the body as text, and the body as JSON (\<open>None\<close> when it is not JSON). A request
  that gets no response is \<open>NoReply\<close>.
\<close>

record http_response =
  status :: int
  rate_limit_reset :: "string option"
  body :: string
  json :: "RawResponse option"

datatype reply = NoReply | Reply http_response

text \<open>The variable parts of the request URL of \<open>search\<close>.\<close>

record request =
  req_query :: string
  req_max_results :: int
  req_sort_order :: string
  req_start_time :: "isotime option"
  req_pagination_token :: "string option"

datatype event = is_Fetch: Fetch request | is_Sleep: Sleep nat

definition RATE_DELAY_MS :: nat where
  "RATE_DELAY_MS = 350"

text \<open>\<open>Math.floor(Date.now() / 1000)\<close>\<close>

definition now_seconds :: "int \<Rightarrow> rat" where
  "now_seconds now = of_int \<lfloor>round64 (of_int now / 1000)\<rfloor>"

definition waitSec :: "string option \<Rightarrow> int \<Rightarrow> jsnum" where
  "waitSec reset now =
     (if truthy reset
      then js_max (js_sub (parseInt (to_string reset)) (Finite (now_seconds now))) (Finite 1)
      else Finite 60)"

definition ok :: "http_response \<Rightarrow> bool" where
  "ok res = (200 \<le> status res \<and> status res \<le> 299)"

text \<open>
  \<open>apiGet\<close> appends the request to the trace when it calls \<open>fetch\<close>; \<open>now\<close> is the reading of
  \<open>Date.now()\<close> on a 429.
\<close>

definition apiGet ::
  "string option \<Rightarrow> string option \<Rightarrow> int \<Rightarrow> reply \<Rightarrow> request \<Rightarrow> event list
     \<Rightarrow> (error + RawResponse) \<times> event list" where
  "apiGet env_token conf_token now rep url trace =
     (case getToken env_token conf_token of
        Inl e \<Rightarrow> (Inl e, trace)
      | Inr token \<Rightarrow>
          (case rep of
             NoReply \<Rightarrow> (Inl FetchFailed, trace @ [Fetch url])
           | Reply res \<Rightarrow>
               if status res = 429
               then (Inl (RateLimited (waitSec (rate_limit_reset res) now)), trace @ [Fetch url])
               else if \<not> ok res
               then (Inl (XApiError (status res) (take 200 (body res))), trace @ [Fetch url])
               else (case json res of
                       None \<Rightarrow> (Inl SyntaxError, trace @ [Fetch url])
                     | Some raw \<Rightarrow> (Inr raw, trace @ [Fetch url]))))"

subsection \<open>search\<close>

record search_opts =
  maxResults :: "int option"
  pages :: "int option"
  sortOrder :: "string option"
  since :: "string option"

text \<open>\<open>raw.meta?.next_token\<close>\<close>

definition meta_next_token :: "RawResponse \<Rightarrow> string option" where
  "meta_next_token raw = (case meta raw of None \<Rightarrow> None | Some m \<Rightarrow> next_token m)"

text \<open>
  The time filter of \<open>search\<close>: \<open>Inl\<close> when \<open>parseSince\<close> throws, \<open>Inr None\<close> when the URL gets
  no \<open>start_time\<close>.
\<close>

definition timeFilter ::
  "(string \<Rightarrow> int option) \<Rightarrow> int \<Rightarrow> search_opts \<Rightarrow> error + isotime option" where
  "timeFilter dateParse now opts =
     (if truthy (since opts) then parseSince dateParse now (to_string (since opts))
      else Inr None)"

text \<open>
  The loop of \<open>search\<close>. \<open>remote page\<close> is the reply to the request of iteration \<open>page\<close> and
  \<open>clock page\<close> the reading of \<open>Date.now()\<close> there. The result is paired with the trace of
  requests and delays.
\<close>

function search_loop ::
  "string option \<Rightarrow> string option \<Rightarrow> (nat \<Rightarrow> int) \<Rightarrow> (nat \<Rightarrow> reply) \<Rightarrow> request \<Rightarrow> int
     \<Rightarrow> nat \<Rightarrow> string option \<Rightarrow> Tweet list \<Rightarrow> event list
     \<Rightarrow> (error + Tweet list) \<times> event list" where
  "search_loop env_token conf_token clock remote url pgs page nextToken allTweets trace =
     (if int page < pgs then
        (let pagination = (if truthy nextToken then nextToken else None);
             got = apiGet env_token conf_token (clock page) (remote page)
                     (url \<lparr> req_pagination_token := pagination \<rparr>) trace
         in case fst got of
              Inl e \<Rightarrow> (Inl e, snd got)
            | Inr raw \<Rightarrow>
                (let allTweets1 = allTweets @ parseTweets raw;
                     nextToken1 = meta_next_token raw
                 in if \<not> truthy nextToken1 then (Inr allTweets1, snd got)
                    else search_loop env_token conf_token clock remote url pgs (page + 1)
                           nextToken1 allTweets1
                           (if int page < pgs - 1 then snd got @ [Sleep RATE_DELAY_MS]
                            else snd got)))
      else (Inr allTweets, trace))"
  by pat_completeness auto
termination
  by (relation "measure (\<lambda>(env_token, conf_token, clock, remote, url, pgs, page, rest).
                  nat (pgs - int page))") auto

declare search_loop.simps [simp del]

definition search ::
  "string option \<Rightarrow> string option \<Rightarrow> (string \<Rightarrow> int option) \<Rightarrow> int \<Rightarrow> (nat \<Rightarrow> int)
     \<Rightarrow> (nat \<Rightarrow> reply) \<Rightarrow> string \<Rightarrow> search_opts \<Rightarrow> (error + Tweet list) \<times> event list" where
  "search env_token conf_token dateParse now clock remote query opts =
     (let maxR = max (min (or_int (maxResults opts) 100) 100) 10;
          pgs = or_int (pages opts) 1;
          sort = or_string (sortOrder opts) ''relevancy''
      in case timeFilter dateParse now opts of
           Inl e \<Rightarrow> (Inl e, [])
         | Inr startTime \<Rightarrow>
             search_loop env_token conf_token clock remote
               \<lparr> req_query = query, req_max_results = maxR, req_sort_order = sort,
                 req_start_time = startTime, req_pagination_token = None \<rparr>
               pgs 0 None [] [])"

subsection \<open>dedupe\<close>

text \<open>The filter of \<open>dedupe\<close>, with the set \<open>seen\<close> of the identities met so far.\<close>

fun dedupe_filter :: "string option set \<Rightarrow> Tweet list \<Rightarrow> Tweet list" where
  "dedupe_filter seen [] = []"
| "dedupe_filter seen (t # ts) =
     (if tweet_id t \<in> seen then dedupe_filter seen ts
      else t # dedupe_filter (insert (tweet_id t) seen) ts)"

definition dedupe :: "Tweet list \<Rightarrow> Tweet list" where
  "dedupe tweets = dedupe_filter {} tweets"

subsection \<open>Example payloads\<close>

definition sample_tweet :: "string \<Rightarrow> string \<Rightarrow> Tweet" where
  "sample_tweet i txt =
     \<lparr> tweet_id = Some i, tweet_text = Some txt, author_id = None, username = ''?'',
       name = ''?'', created_at = None, conversation_id = None,
       metrics = \<lparr> likes = 0, retweets = 0, replies = 0, quotes = 0, impressions = 0,
                   bookmarks = 0 \<rparr>,
       urls = [], mentions = [], hashtags = [], tweet_url = ''https://x.com/?/status/'' @ i \<rparr>"

text \<open>An item with an identity and an author and nothing else.\<close>

definition bare_item :: "string \<Rightarrow> string \<Rightarrow> RawTweet" where
  "bare_item i author =
     \<lparr> raw_id = Some i, raw_text = None, raw_author_id = Some author, raw_created_at = None,
       raw_conversation_id = None, public_metrics = None, entities = None \<rparr>"

text \<open>A page whose side table knows the user 7 only.\<close>

definition sample_page :: "RawTweet list \<Rightarrow> string option \<Rightarrow> RawResponse" where
  "sample_page items token =
     \<lparr> data = Some items,
       includes' = Some \<lparr> users = Some [\<lparr> user_id = Some ''7'', user_username = Some ''alice'',
                                          user_name = Some ''Alice'' \<rparr>] \<rparr>,
       meta = Some \<lparr> next_token = token \<rparr> \<rparr>"

definition ok_response :: "RawResponse \<Rightarrow> http_response" where
  "ok_response raw = \<lparr> status = 200, rate_limit_reset = None, body = [], json = Some raw \<rparr>"

text \<open>A remote with two pages: the first carries a continuation token, the second none.\<close>

definition two_pages :: "nat \<Rightarrow> RawResponse" where
  "two_pages p =
     (if p = 0 then sample_page [bare_item ''1'' ''7''] (Some ''next'')
      else sample_page [bare_item ''2'' ''42''] None)"

definition limited_response :: "string option \<Rightarrow> http_response" where
  "limited_response reset = \<lparr> status = 429, rate_limit_reset = reset, body = [], json = None \<rparr>"

definition sample_request :: request where
  "sample_request =
     \<lparr> req_query = ''bun'', req_max_results = 100, req_sort_order = ''relevancy'',
       req_start_time = None, req_pagination_token = None \<rparr>"

section \<open>Properties of the arithmetic\<close>

text \<open>
  Rules that evaluate the rounding on numerals, and the bound on its error: for
  \<open>\<bar>x\<bar> \<ge> 1\<close> the rounded value differs from \<open>x\<close> by at most \<open>\<bar>x\<bar> / 2 ^ 53\<close>.
\<close>

lemma bit_length_numeral [simp]:
  "bit_length 0 = 0"
  "bit_length 1 = 1"
  "bit_length (Suc 0) = 1"
  "bit_length (numeral Num.One) = 1"
  "bit_length (numeral (Num.Bit0 k)) = Suc (bit_length (numeral k))"
  "bit_length (numeral (Num.Bit1 k)) = Suc (bit_length (numeral k))"
proof -
  show zero: "bit_length 0 = 0" by (simp add: bit_length.simps)
  have "bit_length (Suc 0) = Suc (bit_length (Suc 0 div 2))"
    by (subst bit_length.simps) simp
  with zero show suc: "bit_length (Suc 0) = 1" by simp
  then show one: "bit_length 1 = 1" by simp
  from one show "bit_length (numeral Num.One) = 1" by simp
  show "bit_length (numeral (Num.Bit0 k)) = Suc (bit_length (numeral k))"
    by (subst bit_length.simps) (simp add: numeral_Bit0_div_2)
  show "bit_length (numeral (Num.Bit1 k)) = Suc (bit_length (numeral k))"
    by (subst bit_length.simps) (simp add: numeral_Bit1_div_2)
qed

lemma floor_rat_numeral [simp]:
  "\<lfloor>numeral a / numeral b :: rat\<rfloor> = numeral a div numeral b"
  "\<lfloor>- (numeral a / numeral b) :: rat\<rfloor> = - numeral a div numeral b"
  "\<lfloor>1 / numeral b :: rat\<rfloor> = 1 div numeral b"
proof -
  show "\<lfloor>numeral a / numeral b :: rat\<rfloor> = numeral a div numeral b"
    using floor_divide_of_int_eq[of "numeral a" "numeral b", where ?'a = rat] by simp
  show "\<lfloor>- (numeral a / numeral b) :: rat\<rfloor> = - numeral a div numeral b"
    using floor_divide_of_int_eq[of "- numeral a" "numeral b", where ?'a = rat] by simp
  show "\<lfloor>1 / numeral b :: rat\<rfloor> = 1 div numeral b"
    using floor_divide_of_int_eq[of 1 "numeral b", where ?'a = rat] by simp
qed

lemma ceiling_rat_numeral [simp]:
  "\<lceil>numeral a / numeral b :: rat\<rceil> = - (- numeral a div numeral b)"
  by (simp add: ceiling_def)

lemmas round64_eval = round64_def exponent2_def pow2_def round_half_even_def to_double_def Let_def

lemma bit_length_lower: "0 < n \<Longrightarrow> 2 ^ (bit_length n - 1) \<le> n"
proof (induction n rule: bit_length.induct)
  case (1 n)
  show ?case
  proof (cases "n div 2 = 0")
    case True
    with "1.prems" have "n = 1" by (simp add: div_eq_0_iff) 
    then show ?thesis by simp
  next
    case False
    then have pos: "0 < n div 2" by simp
    from "1.prems" have n0: "n \<noteq> 0" by simp
    from "1.IH"[OF n0 pos] have ih: "2 ^ (bit_length (n div 2) - 1) \<le> n div 2" .
    from pos have bl: "0 < bit_length (n div 2)"
      by (subst bit_length.simps) simp
    have "bit_length n = Suc (bit_length (n div 2))"
      using n0 by (subst bit_length.simps) simp
    then have "2 ^ (bit_length n - 1) = (2::nat) * 2 ^ (bit_length (n div 2) - 1)"
      using bl by (cases "bit_length (n div 2)") simp_all
    also have "\<dots> \<le> 2 * (n div 2)" using ih by simp
    also have "\<dots> \<le> n" by simp
    finally show ?thesis .
  qed
qed

lemma bit_length_pos: "0 < n \<Longrightarrow> 0 < bit_length n"
  by (subst bit_length.simps) simp

lemma round_half_even_error: "\<bar>of_int (round_half_even q) - q\<bar> \<le> 1 / 2"
proof -
  have "of_int \<lfloor>q\<rfloor> \<le> q" "q < of_int \<lfloor>q\<rfloor> + 1" by linarith+
  then show ?thesis
    by (auto simp: round_half_even_def Let_def abs_le_iff)
qed

lemma pow2_nat_diff: "pow2 (int k - 52) = 2 ^ k / 2 ^ 52"
proof (cases "52 \<le> k")
  case True
  then have "nat (int k - 52) = k - 52" by simp
  with True show ?thesis by (simp add: pow2_def power_diff)
next
  case False
  then have n: "nat (52 - int k) = 52 - k" and lt: "k < 52" by simp_all
  have "(2::rat) ^ 52 = 2 ^ (52 - k) * 2 ^ k"
    using lt by (simp add: power_add[symmetric])
  then have "(2::rat) ^ k / 2 ^ 52 = 1 / 2 ^ (52 - k)"
    by (simp add: field_simps)
  with False n show ?thesis by (simp add: pow2_def)
qed

lemma round64_error:
  assumes big: "1 \<le> \<bar>x\<bar>"
  shows "\<bar>round64 x - x\<bar> \<le> \<bar>x\<bar> / 2 ^ 53"
proof -
  define n where "n = nat \<lfloor>\<bar>x\<bar>\<rfloor>"
  define k where "k = bit_length n - 1"
  from big have fl: "1 \<le> \<lfloor>\<bar>x\<bar>\<rfloor>" by linarith
  then have npos: "0 < n" by (simp add: n_def)
  from bit_length_pos[OF npos] have e: "exponent2 \<bar>x\<bar> = int k"
    using big by (simp add: exponent2_def n_def k_def)
  define u where "u = (2::rat) ^ k / 2 ^ 52"
  have upos: "0 < u" by (simp add: u_def)
  from big have x0: "x \<noteq> 0" by auto
  have r: "round64 x = of_int (round_half_even (x / u)) * u"
    using x0 by (simp add: round64_def e Let_def pow2_nat_diff u_def)
  have "round64 x - x = (of_int (round_half_even (x / u)) - x / u) * u"
    using upos by (simp add: r field_simps)
  then have "\<bar>round64 x - x\<bar> = \<bar>of_int (round_half_even (x / u)) - x / u\<bar> * u"
    using upos by (simp add: abs_mult)
  also have "\<dots> \<le> (1 / 2) * u"
    using round_half_even_error[of "x / u"] upos by (simp add: mult_right_mono)
  also have "\<dots> = 2 ^ k / 2 ^ 53" by (simp add: u_def)
  also have "\<dots> \<le> \<bar>x\<bar> / 2 ^ 53"
  proof -
    from bit_length_lower[OF npos] have "(2::nat) ^ k \<le> n" by (simp add: k_def)
    then have "(2::rat) ^ k \<le> of_nat n"
      by (metis of_nat_le_iff of_nat_numeral of_nat_power)
    also have "(of_nat n :: rat) = of_int \<lfloor>\<bar>x\<bar>\<rfloor>" using fl by (simp add: n_def)
    also have "\<dots> \<le> \<bar>x\<bar>" by linarith
    finally show ?thesis by (simp add: divide_right_mono)
  qed
  finally show ?thesis .
qed

lemma far_past_invalid:
  assumes "x \<le> - 17280000000000000"
  shows "new_Date_number (to_double x) = None"
proof -
  from assms have big: "1 \<le> \<bar>x\<bar>" by simp
  have "round64 x - x \<le> \<bar>round64 x - x\<bar>" by (rule abs_ge_self)
  with round64_error[OF big] have "round64 x \<le> x + \<bar>x\<bar> / 2 ^ 53" by linarith
  also from assms have "\<bar>x\<bar> = - x" by simp
  finally have "round64 x \<le> x * (1 - 1 / 2 ^ 53)" by (simp add: algebra_simps)
  also have "\<dots> \<le> - 17280000000000000 * (1 - 1 / 2 ^ 53)"
    using assms by (simp add: mult_right_mono)
  also have "\<dots> < - 8640000000000000" by simp
  finally have "round64 x < - 8640000000000000" .
  then show ?thesis by (simp add: to_double_def Let_def)
qed

section \<open>Properties of the budget ledger\<close>

lemma loadBudget_limits:
  "dailyLimitUsd (loadBudget rnd b1 b2 now disk) =
     dailyLimitUsd (case disk of None \<Rightarrow> DEFAULT_BUDGET rnd b1 b2 | Some b \<Rightarrow> b)"
  "monthlyLimitUsd (loadBudget rnd b1 b2 now disk) =
     monthlyLimitUsd (case disk of None \<Rightarrow> DEFAULT_BUDGET rnd b1 b2 | Some b \<Rightarrow> b)"
  "warnThreshold (loadBudget rnd b1 b2 now disk) =
     warnThreshold (case disk of None \<Rightarrow> DEFAULT_BUDGET rnd b1 b2 | Some b \<Rightarrow> b)"
  by (simp_all add: loadBudget_def Let_def split: option.splits)

lemma recordUsage_budget_limits:
  "dailyLimitUsd (recordUsage_budget rnd b1 b2 now1 now2 n disk) =
     dailyLimitUsd (loadBudget rnd b1 b2 now1 disk)"
  "monthlyLimitUsd (recordUsage_budget rnd b1 b2 now1 now2 n disk) =
     monthlyLimitUsd (loadBudget rnd b1 b2 now1 disk)"
  "warnThreshold (recordUsage_budget rnd b1 b2 now1 now2 n disk) =
     warnThreshold (loadBudget rnd b1 b2 now1 disk)"
  by (simp_all add: recordUsage_budget_def Let_def)

lemma recordUsage_budget_costs:
  "todayCost (localTracking (recordUsage_budget rnd b1 b2 now1 now2 n disk)) =
     rnd ((if today (localTracking (loadBudget rnd b1 b2 now1 disk)) = isoDate now2
           then todayCost (localTracking (loadBudget rnd b1 b2 now1 disk)) else 0)
          + rnd (n * rnd 0.005))"
  "rollingCost (localTracking (recordUsage_budget rnd b1 b2 now1 now2 n disk)) =
     rnd (rollingCost (localTracking (loadBudget rnd b1 b2 now1 disk)) + rnd (n * rnd 0.005))"
  by (simp_all add: recordUsage_budget_def Let_def)

lemmas ledger_eval =
  recordUsage_def check_limits_def recordUsage_budget_def loadBudget_def checkBudget_def
  budget_reset_def budget_set_daily_def budget_set_monthly_def saveBudget_def isoDate_def
  DEFAULT_BUDGET_def fresh_ledger_def exact_def Let_def

lemma round64_decimals:
  "round64 0.005 = 5764607523034235 / 2 ^ 60"
  "round64 0.8 = 3602879701896397 / 2 ^ 52"
  "round64 0.3 = 5404319552844595 / 2 ^ 54"
  "round64 0.1 = 3602879701896397 / 2 ^ 55"
  "round64 1.00 = 1"
  "round64 0 = 0"
  by (simp_all add: round64_eval)

text \<open>
  How the ledger behaves in the arithmetic of the program, where it differs from exact
  arithmetic. With a daily cap of 0.1 and the threshold 0.8, recording 16 units gives no
  warning: the cost is the double 0.08 and the product of the doubles 0.1 and 0.8 is
  the next double above it. Recording 2 units and then 18 units under the same cap
  stores a cost of the day just below the double 0.1, so the second recording gives the
  "approaching" message, not the "exceeded" one.
\<close>

lemma double_rounding_examples:
  "fst (recordUsage round64 b1 b2 ''2026-02-01T09:00:00.000Z'' ''2026-02-01T09:00:00.000Z'' 16
          (Some (fresh_ledger round64 0.1 0))) = None"
  "recordUsage round64 b1 b2 ''2026-02-01T09:30:00.000Z'' ''2026-02-01T09:30:00.000Z'' 18
     (snd (recordUsage round64 b1 b2 ''2026-02-01T09:00:00.000Z'' ''2026-02-01T09:00:00.000Z'' 2
             (Some (fresh_ledger round64 0.1 0))))
   = (Some (Budget_warning (7205759403792793 / 2 ^ 56) (round64 0.1)),
      Some \<lparr> dailyLimitUsd = round64 0.1, monthlyLimitUsd = 0, warnThreshold = round64 0.8,
             localTracking =
               \<lparr> today = ''2026-02-01'', todayPostReads = 20,
                 todayCost = 7205759403792793 / 2 ^ 56,
                 rollingPostReads = 20, rollingCost = 7205759403792793 / 2 ^ 56,
                 lastReset = ''2026-02-01T00:00:00.000Z'' \<rparr> \<rparr>)"
  "(7205759403792793 / 2 ^ 56 :: rat) < round64 0.1"
  by (simp add: ledger_eval, simp add: round64_eval)+

text \<open>
  C1 (as amended). \<open>recordUsage\<close> saves the updated ledger and answers from the costs
  it has stored, \<open>c\<close> (today) and \<open>r\<close> (rolling), against the caps \<open>D\<close> (daily) and \<open>M\<close>
  (monthly) and the threshold \<open>w\<close>. Every sum and product is rounded by \<open>rnd\<close>, so the
  statement holds in the double arithmetic of the program (\<open>round64\<close>) and in exact
  arithmetic (\<open>exact\<close>) alike. The answer is the daily "exceeded" message exactly when
  \<open>D > 0\<close> and \<open>c \<ge> D\<close>; the "approaching" message, which exists for the daily cap
  only, exactly when \<open>D > 0\<close> and \<open>rnd (D * w) \<le> c < D\<close>; the monthly "exceeded" message
  exactly when the daily cap gave no message, \<open>M > 0\<close> and \<open>r \<ge> M\<close>; and nothing
  otherwise. A cap counts when it is positive. In particular recording 160 units with a
  daily cap of 1.00 and a threshold of 0.8 gives the "approaching" message, in doubles
  and in exact arithmetic.
\<close>

theorem recordUsage_warning:
  "(let L = loadBudget rnd b1 b2 now1 disk;
        B = recordUsage_budget rnd b1 b2 now1 now2 n disk;
        D = dailyLimitUsd L; M = monthlyLimitUsd L; w = warnThreshold L;
        c = todayCost (localTracking B); r = rollingCost (localTracking B);
        res = fst (recordUsage rnd b1 b2 now1 now2 n disk)
    in snd (recordUsage rnd b1 b2 now1 now2 n disk) = Some B
     \<and> c = rnd ((if today (localTracking L) = isoDate now2 then todayCost (localTracking L)
                 else 0) + rnd (n * rnd 0.005))
     \<and> r = rnd (rollingCost (localTracking L) + rnd (n * rnd 0.005))
     \<and> (res = Some (DAILY_BUDGET_EXCEEDED c D)) = (D > 0 \<and> c \<ge> D)
     \<and> (res = Some (Budget_warning c D)) = (D > 0 \<and> c < D \<and> c \<ge> rnd (D * w))
     \<and> (res = Some (MONTHLY_BUDGET_EXCEEDED r M)) =
         (\<not> (D > 0 \<and> (c \<ge> D \<or> c \<ge> rnd (D * w))) \<and> M > 0 \<and> r \<ge> M)
     \<and> (res = None) =
         (\<not> (D > 0 \<and> (c \<ge> D \<or> c \<ge> rnd (D * w))) \<and> \<not> (M > 0 \<and> r \<ge> M)))
   \<and> fst (recordUsage round64 b1 b2 ''2026-02-01T09:00:00.000Z'' ''2026-02-01T09:00:00.000Z'' 160
            (Some (fresh_ledger round64 1.00 0))) = Some (Budget_warning (round64 0.8) 1.00)
   \<and> fst (recordUsage exact b1 b2 ''2026-02-01T09:00:00.000Z'' ''2026-02-01T09:00:00.000Z'' 160
            (Some (fresh_ledger exact 1.00 0))) = Some (Budget_warning 0.8 1.00)"
proof (intro conjI)
  show "fst (recordUsage round64 b1 b2 ''2026-02-01T09:00:00.000Z'' ''2026-02-01T09:00:00.000Z'' 160
            (Some (fresh_ledger round64 1.00 0))) = Some (Budget_warning (round64 0.8) 1.00)"
    by (simp add: ledger_eval round64_decimals) (simp add: round64_eval)
  show "fst (recordUsage exact b1 b2 ''2026-02-01T09:00:00.000Z'' ''2026-02-01T09:00:00.000Z'' 160
            (Some (fresh_ledger exact 1.00 0))) = Some (Budget_warning 0.8 1.00)"
    by (simp add: ledger_eval)
  show "let L = loadBudget rnd b1 b2 now1 disk;
        B = recordUsage_budget rnd b1 b2 now1 now2 n disk;
        D = dailyLimitUsd L; M = monthlyLimitUsd L; w = warnThreshold L;
        c = todayCost (localTracking B); r = rollingCost (localTracking B);
        res = fst (recordUsage rnd b1 b2 now1 now2 n disk)
    in snd (recordUsage rnd b1 b2 now1 now2 n disk) = Some B
     \<and> c = rnd ((if today (localTracking L) = isoDate now2 then todayCost (localTracking L)
                 else 0) + rnd (n * rnd 0.005))
     \<and> r = rnd (rollingCost (localTracking L) + rnd (n * rnd 0.005))
     \<and> (res = Some (DAILY_BUDGET_EXCEEDED c D)) = (D > 0 \<and> c \<ge> D)
     \<and> (res = Some (Budget_warning c D)) = (D > 0 \<and> c < D \<and> c \<ge> rnd (D * w))
     \<and> (res = Some (MONTHLY_BUDGET_EXCEEDED r M)) =
         (\<not> (D > 0 \<and> (c \<ge> D \<or> c \<ge> rnd (D * w))) \<and> M > 0 \<and> r \<ge> M)
     \<and> (res = None) =
         (\<not> (D > 0 \<and> (c \<ge> D \<or> c \<ge> rnd (D * w))) \<and> \<not> (M > 0 \<and> r \<ge> M))"
    unfolding Let_def recordUsage_def fst_conv snd_conv saveBudget_def check_limits_def
      recordUsage_budget_limits recordUsage_budget_costs
    by (auto simp: not_le)
qed

text \<open>
  C1 (as stated) fails for the monthly cap: with no daily cap, a monthly cap of 1.00 and
  the threshold 0.8, recording 160 units brings the rolling cost to 0.80, which meets
  cap * threshold (in doubles and in exact arithmetic), and \<open>recordUsage\<close> returns no
  warning.
\<close>

theorem monthly_approaching_counterexample:
  "fst (recordUsage round64 ''2026-02-01T00:00:00.000Z'' ''2026-02-01T00:00:00.000Z''
          ''2026-02-01T09:00:00.000Z'' ''2026-02-01T09:00:00.000Z'' 160
          (Some (fresh_ledger round64 0 1.00))) = None
   \<and> monthlyLimitUsd (fresh_ledger round64 0 1.00) \<noteq> 0
   \<and> rollingCost (localTracking (recordUsage_budget round64 ''2026-02-01T00:00:00.000Z''
          ''2026-02-01T00:00:00.000Z'' ''2026-02-01T09:00:00.000Z'' ''2026-02-01T09:00:00.000Z''
          160 (Some (fresh_ledger round64 0 1.00))))
       \<ge> round64 (monthlyLimitUsd (fresh_ledger round64 0 1.00)
                    * warnThreshold (fresh_ledger round64 0 1.00))
   \<and> (160 :: rat) * 0.005 \<ge> 1.00 * 0.8"
  by (simp add: ledger_eval round64_decimals) (simp add: round64_eval)

subsection \<open>What the two counters hold\<close>

text \<open>
  In exact arithmetic, over any run of recordings the rolling counters grow by all the
  units recorded, whatever the dates; over a run of recordings on one day \<open>d\<close> the cost of
  the day is the cost of the units of the run, on top of what the ledger held for \<open>d\<close>.
\<close>

lemma record_step_rolling:
  "is_record op \<Longrightarrow>
     \<exists>b'. ledger_step exact b1 b2 op (Some b) = Some b'
        \<and> rollingCost (localTracking b') = rollingCost (localTracking b) + recorded_units op * 0.005
        \<and> rollingPostReads (localTracking b') = rollingPostReads (localTracking b) + recorded_units op"
  by (cases op) (simp_all add: recordUsage_def recordUsage_budget_def loadBudget_def saveBudget_def
      exact_def Let_def)

lemma record_run_rolling:
  "list_all is_record ops \<Longrightarrow>
     \<exists>b'. ledger_run exact b1 b2 ops (Some b) = Some b'
        \<and> rollingCost (localTracking b') =
            rollingCost (localTracking b) + sum_list (map recorded_units ops) * 0.005
        \<and> rollingPostReads (localTracking b') =
            rollingPostReads (localTracking b) + sum_list (map recorded_units ops)"
proof (induction ops arbitrary: b)
  case Nil
  then show ?case by simp
next
  case (Cons op ops)
  then have "is_record op" and rest: "list_all is_record ops" by simp_all
  from record_step_rolling[OF this(1), of b1 b2 b]
  obtain b1' where s: "ledger_step exact b1 b2 op (Some b) = Some b1'"
    and r: "rollingCost (localTracking b1') = rollingCost (localTracking b) + recorded_units op * 0.005"
    and p: "rollingPostReads (localTracking b1') = rollingPostReads (localTracking b) + recorded_units op"
    by blast
  from Cons.IH[OF rest, of b1'] s r p show ?case
    by (auto simp: algebra_simps)
qed

lemma record_step_today:
  "is_record_on d op \<Longrightarrow>
     \<exists>b'. ledger_step exact b1 b2 op (Some b) = Some b'
        \<and> today (localTracking b') = d
        \<and> todayCost (localTracking b') =
            (if today (localTracking b) = d then todayCost (localTracking b) else 0)
              + recorded_units op * 0.005"
  by (cases op) (auto simp: recordUsage_def recordUsage_budget_def loadBudget_def saveBudget_def
      exact_def Let_def)

lemma record_run_today:
  "list_all (is_record_on d) ops \<Longrightarrow> ops \<noteq> [] \<or> today (localTracking b) = d \<Longrightarrow>
     \<exists>b'. ledger_run exact b1 b2 ops (Some b) = Some b'
        \<and> today (localTracking b') = d
        \<and> todayCost (localTracking b') =
            (if today (localTracking b) = d then todayCost (localTracking b) else 0)
              + sum_list (map recorded_units ops) * 0.005"
proof (induction ops arbitrary: b)
  case Nil
  then show ?case by simp
next
  case (Cons op ops)
  then have "is_record_on d op" and rest: "list_all (is_record_on d) ops" by simp_all
  from record_step_today[OF this(1), of b1 b2 b]
  obtain b1' where s: "ledger_step exact b1 b2 op (Some b) = Some b1'"
    and d: "today (localTracking b1') = d"
    and c: "todayCost (localTracking b1') =
            (if today (localTracking b) = d then todayCost (localTracking b) else 0)
              + recorded_units op * 0.005"
    by blast
  from d have "ops \<noteq> [] \<or> today (localTracking b1') = d" by simp
  from Cons.IH[OF rest this] s d c show ?case
    by (auto simp: algebra_simps)
qed

text \<open>
  C2, at the failing input: 100 units recorded on 2026-01-01 and 100 units recorded on
  2026-03-01, fifty-nine days later, on a ledger that starts with no file. The cost of
  the day is that of the 100 units of the day; the rolling cost is that of all 200
  units, the 100 units older than thirty days included. The amounts are the same in
  exact arithmetic and in doubles.
\<close>

theorem rollingCost_keeps_old_units:
  "ledger_run exact ''2026-01-01T00:00:00.000Z'' ''2026-01-01T00:00:00.000Z''
     [Record ''2026-01-01T12:00:00.000Z'' ''2026-01-01T12:00:00.000Z'' 100,
      Record ''2026-03-01T12:00:00.000Z'' ''2026-03-01T12:00:00.000Z'' 100] None =
   Some \<lparr> dailyLimitUsd = 0, monthlyLimitUsd = 0, warnThreshold = 0.8,
       localTracking =
         \<lparr> today = ''2026-03-01'', todayPostReads = 100, todayCost = 0.5,
           rollingPostReads = 200, rollingCost = 1, lastReset = ''2026-01-01T00:00:00.000Z'' \<rparr> \<rparr>
   \<and> ledger_run round64 ''2026-01-01T00:00:00.000Z'' ''2026-01-01T00:00:00.000Z''
     [Record ''2026-01-01T12:00:00.000Z'' ''2026-01-01T12:00:00.000Z'' 100,
      Record ''2026-03-01T12:00:00.000Z'' ''2026-03-01T12:00:00.000Z'' 100] None =
   Some \<lparr> dailyLimitUsd = 0, monthlyLimitUsd = 0, warnThreshold = round64 0.8,
       localTracking =
         \<lparr> today = ''2026-03-01'', todayPostReads = 100, todayCost = 0.5,
           rollingPostReads = 200, rollingCost = 1, lastReset = ''2026-01-01T00:00:00.000Z'' \<rparr> \<rparr>"
proof (rule conjI)
  show "ledger_run exact ''2026-01-01T00:00:00.000Z'' ''2026-01-01T00:00:00.000Z''
     [Record ''2026-01-01T12:00:00.000Z'' ''2026-01-01T12:00:00.000Z'' 100,
      Record ''2026-03-01T12:00:00.000Z'' ''2026-03-01T12:00:00.000Z'' 100] None =
   Some \<lparr> dailyLimitUsd = 0, monthlyLimitUsd = 0, warnThreshold = 0.8,
       localTracking =
         \<lparr> today = ''2026-03-01'', todayPostReads = 100, todayCost = 0.5,
           rollingPostReads = 200, rollingCost = 1, lastReset = ''2026-01-01T00:00:00.000Z'' \<rparr> \<rparr>"
    by (simp add: ledger_eval)
  show "ledger_run round64 ''2026-01-01T00:00:00.000Z'' ''2026-01-01T00:00:00.000Z''
     [Record ''2026-01-01T12:00:00.000Z'' ''2026-01-01T12:00:00.000Z'' 100,
      Record ''2026-03-01T12:00:00.000Z'' ''2026-03-01T12:00:00.000Z'' 100] None =
   Some \<lparr> dailyLimitUsd = 0, monthlyLimitUsd = 0, warnThreshold = round64 0.8,
       localTracking =
         \<lparr> today = ''2026-03-01'', todayPostReads = 100, todayCost = 0.5,
           rollingPostReads = 200, rollingCost = 1, lastReset = ''2026-01-01T00:00:00.000Z'' \<rparr> \<rparr>"
    by (simp add: ledger_eval) (simp add: round64_eval)
qed

text \<open>
  C3 (as amended). \<open>checkBudget\<close> blocks exactly when a positive daily cap is below the
  rounded sum of today's cost and the estimated cost, or a positive monthly cap is
  below the rounded sum of the rolling cost and the estimated cost, on the ledger that
  \<open>loadBudget\<close> returns; the estimated cost is the rounded product of the estimate and
  the rounded unit price; and it leaves the file as it is. This holds for every
  rounding, so in the double arithmetic of the program and in exact arithmetic. In
  doubles, after 150 units are recorded under a daily cap of 1.00 the cost of the day
  is 0.75, an estimate of 60 units is blocked and an estimate of 40 units is let
  through.
\<close>

theorem checkBudget_denies_iff:
  "(fst (checkBudget rnd b1 b2 now e disk) \<noteq> None) =
     ((dailyLimitUsd (loadBudget rnd b1 b2 now disk) > 0 \<and>
       rnd (todayCost (localTracking (loadBudget rnd b1 b2 now disk)) + rnd (e * rnd 0.005))
         > dailyLimitUsd (loadBudget rnd b1 b2 now disk)) \<or>
      (monthlyLimitUsd (loadBudget rnd b1 b2 now disk) > 0 \<and>
       rnd (rollingCost (localTracking (loadBudget rnd b1 b2 now disk)) + rnd (e * rnd 0.005))
         > monthlyLimitUsd (loadBudget rnd b1 b2 now disk)))
   \<and> snd (checkBudget rnd b1 b2 now e disk) = disk
   \<and> todayCost (localTracking (recordUsage_budget round64 b1 b2 ''2026-02-01T09:00:00.000Z''
        ''2026-02-01T09:00:00.000Z'' 150 (Some (fresh_ledger round64 1.00 0)))) = 0.75
   \<and> fst (checkBudget round64 b1 b2 ''2026-02-01T10:00:00.000Z'' 60
        (snd (recordUsage round64 b1 b2 ''2026-02-01T09:00:00.000Z'' ''2026-02-01T09:00:00.000Z''
           150 (Some (fresh_ledger round64 1.00 0))))) = Some (Blocked_daily 0.75 (round64 0.3) 1.00)
   \<and> fst (checkBudget round64 b1 b2 ''2026-02-01T10:00:00.000Z'' 40
        (snd (recordUsage round64 b1 b2 ''2026-02-01T09:00:00.000Z'' ''2026-02-01T09:00:00.000Z''
           150 (Some (fresh_ledger round64 1.00 0))))) = None"
proof -
  have general: "(fst (checkBudget rnd b1 b2 now e disk) \<noteq> None) =
     ((dailyLimitUsd (loadBudget rnd b1 b2 now disk) > 0 \<and>
       rnd (todayCost (localTracking (loadBudget rnd b1 b2 now disk)) + rnd (e * rnd 0.005))
         > dailyLimitUsd (loadBudget rnd b1 b2 now disk)) \<or>
      (monthlyLimitUsd (loadBudget rnd b1 b2 now disk) > 0 \<and>
       rnd (rollingCost (localTracking (loadBudget rnd b1 b2 now disk)) + rnd (e * rnd 0.005))
         > monthlyLimitUsd (loadBudget rnd b1 b2 now disk)))"
    by (simp add: checkBudget_def Let_def)
  have frame: "snd (checkBudget rnd b1 b2 now e disk) = disk"
    by (simp add: checkBudget_def Let_def)
  have cost: "todayCost (localTracking (recordUsage_budget round64 b1 b2 ''2026-02-01T09:00:00.000Z''
        ''2026-02-01T09:00:00.000Z'' 150 (Some (fresh_ledger round64 1.00 0)))) = 0.75"
    by (simp add: ledger_eval) (simp add: round64_eval)
  have denied: "fst (checkBudget round64 b1 b2 ''2026-02-01T10:00:00.000Z'' 60
        (snd (recordUsage round64 b1 b2 ''2026-02-01T09:00:00.000Z'' ''2026-02-01T09:00:00.000Z''
           150 (Some (fresh_ledger round64 1.00 0))))) = Some (Blocked_daily 0.75 (round64 0.3) 1.00)"
    by (simp add: ledger_eval) (simp add: round64_eval)
  have allowed: "fst (checkBudget round64 b1 b2 ''2026-02-01T10:00:00.000Z'' 40
        (snd (recordUsage round64 b1 b2 ''2026-02-01T09:00:00.000Z'' ''2026-02-01T09:00:00.000Z''
           150 (Some (fresh_ledger round64 1.00 0))))) = None"
    by (simp add: ledger_eval) (simp add: round64_eval)
  from general frame cost denied allowed show ?thesis by blast
qed

text \<open>
  C3 (as stated) compares exact amounts: with a daily cap of 0.3 and 20 units recorded
  (0.1), an estimate of 40 units (0.2) does not exceed the cap, 0.1 + 0.2 being 0.3.
  The program blocks it: the sum of the doubles 0.1 and 0.2 rounds to the double above
  the double 0.3.
\<close>

theorem checkBudget_rounding_counterexample:
  "fst (checkBudget round64 ''2026-02-01T00:00:00.000Z'' ''2026-02-01T00:00:00.000Z''
          ''2026-02-01T10:00:00.000Z'' 40
          (snd (recordUsage round64 ''2026-02-01T00:00:00.000Z'' ''2026-02-01T00:00:00.000Z''
                  ''2026-02-01T09:00:00.000Z'' ''2026-02-01T09:00:00.000Z'' 20
                  (Some (fresh_ledger round64 0.3 0)))))
     = Some (Blocked_daily (round64 0.1) (round64 0.2) (round64 0.3))
   \<and> \<not> ((0.3 :: rat) < 20 * 0.005 + 40 * 0.005)"
  by (simp add: ledger_eval) (simp add: round64_eval)

subsection \<open>The accounting invariant\<close>








text \<open>
  C6. The reset saves a ledger whose two caps and threshold are those of the ledger
  before (of the file, or of the defaults when there is no file), whose read counts and
  costs are zero, and whose last-reset stamp is the new clock reading.
\<close>

theorem budget_reset_frame:
  "budget_reset rnd b1 b2 now now1 now2 disk =
     Some \<lparr> dailyLimitUsd =
              dailyLimitUsd (case disk of None \<Rightarrow> DEFAULT_BUDGET rnd b1 b2 | Some b \<Rightarrow> b),
            monthlyLimitUsd =
              monthlyLimitUsd (case disk of None \<Rightarrow> DEFAULT_BUDGET rnd b1 b2 | Some b \<Rightarrow> b),
            warnThreshold =
              warnThreshold (case disk of None \<Rightarrow> DEFAULT_BUDGET rnd b1 b2 | Some b \<Rightarrow> b),
            localTracking =
              \<lparr> today = isoDate now1, todayPostReads = 0, todayCost = 0,
                rollingPostReads = 0, rollingCost = 0, lastReset = now2 \<rparr> \<rparr>"
  by (simp add: budget_reset_def saveBudget_def loadBudget_def Let_def split: option.splits)

section \<open>Properties of the remote fetch client\<close>

lemmas js_eval = truthy_def or_string_def or_number_def or_int_def or_list_def filter_Boolean_def
  to_string_def

lemmas parseInt_eval = parseInt_def is_digit_def is_hex_digit_def is_space_def digit_value_def
  digits_value_def now_seconds_def round64_eval

lemmas api_eval = apiGet_def getToken_def waitSec_def ok_def truthy_def to_string_def
  limited_response_def sample_request_def parseInt_eval

lemmas example_eval = two_pages_def sample_page_def bare_item_def ok_response_def
  parseTweets_def parseTweet_def users_table_def set_property_def get_property_def
  Object_prototype_functions_def function_name_def empty_user_def empty_metrics_def
  meta_next_token_def js_eval Let_def

subsection \<open>Pagination\<close>

lemma apiGet_ok:
  assumes "getToken env_token conf_token = Inr token" and "ok res" and "json res = Some raw"
  shows "apiGet env_token conf_token t (Reply res) url trace = (Inr raw, trace @ [Fetch url])"
  using assms by (auto simp: apiGet_def ok_def)

lemma search_loop_pages:
  assumes cred: "getToken env_token conf_token = Inr token"
    and replies: "\<forall>p<m. ok (res p) \<and> json (res p) = Some (raw p) \<and> remote p = Reply (res p)"
    and more: "\<forall>p<m - 1. truthy (meta_next_token (raw p))"
    and final: "\<not> truthy (meta_next_token (raw (m - 1)))"
    and budget: "int m \<le> pgs"
  shows "k < m \<Longrightarrow>
     search_loop env_token conf_token clock remote url pgs k tk acc tr =
       (Inr (acc @ concat (map (\<lambda>p. parseTweets (raw p)) [k..<m])),
        tr @ [Fetch (url \<lparr> req_pagination_token := (if truthy tk then tk else None) \<rparr>)]
           @ concat (map (\<lambda>p. [Sleep RATE_DELAY_MS,
                               Fetch (url \<lparr> req_pagination_token := meta_next_token (raw (p - 1)) \<rparr>)])
                      [Suc k..<m]))"
proof (induction "m - k" arbitrary: k tk acc tr)
  case 0
  then show ?case by simp
next
  case (Suc d)
  from Suc.prems replies have rk: "ok (res k)" "json (res k) = Some (raw k)" "remote k = Reply (res k)"
    by auto
  from Suc.prems budget have lt: "int k < pgs" by linarith
  note got = apiGet_ok[OF cred rk(1) rk(2)]
  show ?case
  proof (cases "Suc k = m")
    case True
    with final have stop: "\<not> truthy (meta_next_token (raw k))" by auto
    from True have lists: "[k..<m] = [k]" "[Suc k..<m] = []" by auto
    show ?thesis
      by (subst search_loop.simps) (simp add: lt rk(3) got stop lists Let_def)
  next
    case False
    with Suc.prems have k1: "Suc k < m" by simp
    with more have go: "truthy (meta_next_token (raw k))" by simp
    from k1 budget have lt1: "int k < pgs - 1" by linarith
    from Suc.hyps(2) k1 have d: "d = m - Suc k" by simp
    from k1 have lists: "[k..<m] = k # [Suc k..<m]" "[Suc k..<m] = Suc k # [Suc (Suc k)..<m]"
      by (simp_all add: upt_conv_Cons)
    have step: "search_loop env_token conf_token clock remote url pgs k tk acc tr =
        search_loop env_token conf_token clock remote url pgs (Suc k) (meta_next_token (raw k))
          (acc @ parseTweets (raw k))
          ((tr @ [Fetch (url \<lparr> req_pagination_token := (if truthy tk then tk else None) \<rparr>)])
             @ [Sleep RATE_DELAY_MS])"
      by (subst search_loop.simps) (simp add: lt lt1 rk(3) got go Let_def)
    show ?thesis
      unfolding step Suc.hyps(1)[OF d k1]
      by (simp add: lists go)
  qed
qed

lemma apiGet_429:
  assumes "getToken env_token conf_token = Inr token" and "status res = 429"
  shows "apiGet env_token conf_token t (Reply res) url trace =
           (Inl (RateLimited (waitSec (rate_limit_reset res) t)), trace @ [Fetch url])"
  using assms by (simp add: apiGet_def)

lemma trace_count:
  "length (filter is_Fetch (concat (map (\<lambda>p. [Sleep d, Fetch (f p)]) ps))) = length ps"
  "length (filter is_Sleep (concat (map (\<lambda>p. [Sleep d, Fetch (f p)]) ps))) = length ps"
  by (induction ps) simp_all

lemma trace_last:
  "is_Fetch (last (Fetch a # concat (map (\<lambda>p. [Sleep d, Fetch (f p)]) ps)))"
  by (induction ps rule: rev_induct) simp_all

text \<open>
  C5. A search with a page budget of \<open>N\<close> pages, whose credential resolves and whose time
  filter does not fail, against a remote that answers the first \<open>m\<close> requests
  successfully, with a continuation token on every page before page \<open>m\<close> and none on
  page \<open>m\<close> (\<open>1 \<le> m \<le> N\<close>): the result is the records of the pages \<open>0, \<dots>, m - 1\<close>
  concatenated in that order; the trace is the first request followed, for every
  further page, by the delay and then the request that carries the token of the page
  before; so there are exactly \<open>m\<close> requests and \<open>m - 1\<close> delays, and the trace ends with
  a request. A token is carried when it is a non-empty string.
\<close>

theorem search_pagination:
  assumes cred: "getToken env_token conf_token = Inr token"
    and tf: "timeFilter dateParse now opts = Inr startTime"
    and budget: "pages opts = Some (int N)" and m: "1 \<le> m" "m \<le> N"
    and replies: "\<forall>p<m. ok (res p) \<and> json (res p) = Some (raw p) \<and> remote p = Reply (res p)"
    and more: "\<forall>p<m - 1. truthy (meta_next_token (raw p))"
    and final: "\<not> truthy (meta_next_token (raw (m - 1)))"
  shows "(let url = \<lparr> req_query = query,
                      req_max_results = max (min (or_int (maxResults opts) 100) 100) 10,
                      req_sort_order = or_string (sortOrder opts) ''relevancy'',
                      req_start_time = startTime, req_pagination_token = None \<rparr>;
              result = search env_token conf_token dateParse now clock remote query opts
          in fst result = Inr (concat (map (\<lambda>p. parseTweets (raw p)) [0..<m]))
           \<and> snd result =
               Fetch url # concat (map (\<lambda>p. [Sleep RATE_DELAY_MS,
                   Fetch (url \<lparr> req_pagination_token := meta_next_token (raw (p - 1)) \<rparr>)])
                 [1..<m])
           \<and> length (filter is_Fetch (snd result)) = m
           \<and> length (filter is_Sleep (snd result)) = m - 1
           \<and> is_Fetch (last (snd result)))"
proof -
  let ?url = "\<lparr> req_query = query,
                 req_max_results = max (min (or_int (maxResults opts) 100) 100) 10,
                 req_sort_order = or_string (sortOrder opts) ''relevancy'',
                 req_start_time = startTime, req_pagination_token = None \<rparr>"
  let ?trace = "Fetch ?url # concat (map (\<lambda>p. [Sleep RATE_DELAY_MS,
                   Fetch (?url \<lparr> req_pagination_token := meta_next_token (raw (p - 1)) \<rparr>)])
                 [1..<m])"
  from m budget have pgs: "or_int (pages opts) 1 = int N" and le: "int m \<le> int N" and k: "0 < m"
    by (simp_all add: or_int_def)
  have loop: "search_loop env_token conf_token clock remote ?url (int N) 0 None [] [] =
      (Inr (concat (map (\<lambda>p. parseTweets (raw p)) [0..<m])), ?trace)"
    using search_loop_pages[OF cred replies more final le k, of clock ?url None "[]" "[]"]
    by (simp add: truthy_def)
  have result: "search env_token conf_token dateParse now clock remote query opts =
      (Inr (concat (map (\<lambda>p. parseTweets (raw p)) [0..<m])), ?trace)"
    by (simp add: search_def tf pgs loop Let_def)
  have fetches: "length (filter is_Fetch ?trace) = m"
    using k by (simp add: trace_count)
  have sleeps: "length (filter is_Sleep ?trace) = m - 1"
    by (simp add: trace_count)
  have "is_Fetch (last ?trace)" by (rule trace_last)
  with result fetches sleeps show ?thesis
    unfolding Let_def by (simp del: last.simps)
qed

text \<open>
  C5 at two pages: the first page carries the token \<open>next\<close>, the second none, the budget
  is 2. Two requests are issued, with one delay between them.
\<close>

theorem search_pagination_witness:
  "search (Some ''token'') None (\<lambda>s. None) 1793664000000 (\<lambda>p. 1793664000000)
       (\<lambda>p. Reply (ok_response (two_pages p))) ''bun''
       \<lparr> maxResults = None, pages = Some 2, sortOrder = None, since = None \<rparr> =
     (Inr (parseTweets (two_pages 0) @ parseTweets (two_pages 1)),
      [Fetch sample_request, Sleep 350,
       Fetch (sample_request \<lparr> req_pagination_token := Some ''next'' \<rparr>)])
   \<and> map tweet_id (parseTweets (two_pages 0) @ parseTweets (two_pages 1)) = [Some ''1'', Some ''2'']"
proof -
  have cred: "getToken (Some ''token'') None = Inr ''token''"
    by (simp add: getToken_def truthy_def to_string_def)
  have tf: "timeFilter (\<lambda>s. None) 1793664000000
              \<lparr> maxResults = None, pages = Some 2, sortOrder = None, since = None \<rparr> = Inr None"
    by (simp add: timeFilter_def truthy_def)
  have budget: "pages \<lparr> maxResults = None, pages = Some 2, sortOrder = None, since = None \<rparr>
                  = Some (int 2)"
    by simp
  have replies: "\<forall>p<2. ok (ok_response (two_pages p))
        \<and> json (ok_response (two_pages p)) = Some (two_pages p)
        \<and> (\<lambda>p. Reply (ok_response (two_pages p))) p = Reply (ok_response (two_pages p))"
    by (simp add: ok_def ok_response_def)
  have more: "\<forall>p<2 - 1. truthy (meta_next_token (two_pages p))"
    by (simp add: example_eval truthy_def)
  have final: "\<not> truthy (meta_next_token (two_pages (2 - 1)))"
    by (simp add: example_eval truthy_def)
  have ids: "map tweet_id (parseTweets (two_pages 0) @ parseTweets (two_pages 1))
               = [Some ''1'', Some ''2'']"
    by (simp add: example_eval)
  from search_pagination[OF cred tf budget _ _ replies more final,
         where clock = "\<lambda>p. 1793664000000" and query = "''bun''"]
  have "search (Some ''token'') None (\<lambda>s. None) 1793664000000 (\<lambda>p. 1793664000000)
       (\<lambda>p. Reply (ok_response (two_pages p))) ''bun''
       \<lparr> maxResults = None, pages = Some 2, sortOrder = None, since = None \<rparr> =
     (Inr (parseTweets (two_pages 0) @ parseTweets (two_pages 1)),
      [Fetch sample_request, Sleep 350,
       Fetch (sample_request \<lparr> req_pagination_token := Some ''next'' \<rparr>)])"
    by (simp add: Let_def prod_eq_iff or_int_def or_string_def sample_request_def RATE_DELAY_MS_def
        upt_conv_Cons meta_next_token_def two_pages_def sample_page_def numeral_2_eq_2)
  with ids show ?thesis by simp
qed


subsection \<open>Normalization\<close>

lemma users_fold_own:
  "k \<noteq> ''__proto__'' \<Longrightarrow>
     (own (fold (\<lambda>u table. set_property table (to_string (user_id u)) u) us table0) k = None) =
       (own table0 k = None \<and> (\<forall>u\<in>set us. to_string (user_id u) \<noteq> k))"
  by (induction us arbitrary: table0) (auto simp: set_property_def)

lemma users_fold_own_proto:
  "own (fold (\<lambda>u table. set_property table (to_string (user_id u)) u) us table0) ''__proto__''
     = own table0 ''__proto__''"
  by (induction us arbitrary: table0) (auto simp: set_property_def)

lemma users_fold_proto:
  "\<forall>u\<in>set us. to_string (user_id u) \<noteq> ''__proto__'' \<Longrightarrow>
     proto (fold (\<lambda>u table. set_property table (to_string (user_id u)) u) us table0)
       = proto table0"
  by (induction us arbitrary: table0) (auto simp: set_property_def)

lemma users_table_unknown:
  assumes absent: "\<forall>u\<in>set us. to_string (user_id u) \<noteq> k"
    and plain: "k \<notin> set Object_prototype_functions"
  shows "get_property (users_table us) k = empty_user"
proof (cases "k = ''__proto__''")
  case True
  with absent have "proto (users_table us) = None"
    by (simp add: users_table_def users_fold_proto)
  moreover have "own (users_table us) ''__proto__'' = None"
    by (simp add: users_table_def users_fold_own_proto)
  ultimately show ?thesis using True by (simp add: get_property_def)
next
  case False
  with absent have "own (users_table us) k = None"
    by (simp add: users_table_def users_fold_own)
  with False plain show ?thesis by (simp add: get_property_def)
qed

lemma users_table_inherited:
  assumes absent: "\<forall>u\<in>set us. to_string (user_id u) \<noteq> k"
    and inherited: "k \<in> set Object_prototype_functions"
  shows "get_property (users_table us) k =
           \<lparr> user_id = None, user_username = None, user_name = Some (function_name k) \<rparr>"
proof -
  from inherited have k: "k \<noteq> ''__proto__''" by (auto simp: Object_prototype_functions_def)
  with absent have "own (users_table us) k = None"
    by (simp add: users_table_def users_fold_own)
  with k inherited show ?thesis by (simp add: get_property_def)
qed

lemma parseTweet_identity:
  "tweet_id (parseTweet table t) = raw_id t" "author_id (parseTweet table t) = raw_author_id t"
  by (simp_all add: parseTweet_def Let_def)

lemma parseTweet_no_metrics:
  "public_metrics t = None \<Longrightarrow>
     metrics (parseTweet table t) =
       \<lparr> likes = 0, retweets = 0, replies = 0, quotes = 0, impressions = 0, bookmarks = 0 \<rparr>"
  by (simp add: parseTweet_def empty_metrics_def or_number_def Let_def)

lemma parseTweet_missing_metric:
  assumes "public_metrics t = Some m"
  shows "like_count m = None \<Longrightarrow> likes (metrics (parseTweet table t)) = 0"
    and "retweet_count m = None \<Longrightarrow> retweets (metrics (parseTweet table t)) = 0"
    and "reply_count m = None \<Longrightarrow> replies (metrics (parseTweet table t)) = 0"
    and "quote_count m = None \<Longrightarrow> quotes (metrics (parseTweet table t)) = 0"
    and "impression_count m = None \<Longrightarrow> impressions (metrics (parseTweet table t)) = 0"
    and "bookmark_count m = None \<Longrightarrow> bookmarks (metrics (parseTweet table t)) = 0"
  using assms by (simp_all add: parseTweet_def or_number_def Let_def)

lemma parseTweet_no_entities:
  "entities t = None \<Longrightarrow>
     urls (parseTweet table t) = [] \<and> mentions (parseTweet table t) = []
     \<and> hashtags (parseTweet table t) = []"
  by (simp add: parseTweet_def or_list_def filter_Boolean_def Let_def)

lemma parseTweet_missing_entity:
  assumes "entities t = Some e"
  shows "entity_urls e = None \<Longrightarrow> urls (parseTweet table t) = []"
    and "entity_mentions e = None \<Longrightarrow> mentions (parseTweet table t) = []"
    and "entity_hashtags e = None \<Longrightarrow> hashtags (parseTweet table t) = []"
  using assms by (simp_all add: parseTweet_def or_list_def filter_Boolean_def Let_def)

lemma parseTweet_unknown_author:
  "get_property table (to_string (raw_author_id t)) = empty_user \<Longrightarrow>
     username (parseTweet table t) = ''?'' \<and> name (parseTweet table t) = ''?''
     \<and> tweet_url (parseTweet table t) = ''https://x.com/?/status/'' @ to_string (raw_id t)"
  by (simp add: parseTweet_def empty_user_def or_string_def Let_def)

lemma parseTweet_inherited_author:
  "get_property table (to_string (raw_author_id t)) =
     \<lparr> user_id = None, user_username = None, user_name = Some f \<rparr> \<Longrightarrow>
     username (parseTweet table t) = ''?'' \<and> name (parseTweet table t) = or_string (Some f) ''?''"
  by (simp add: parseTweet_def or_string_def Let_def)

text \<open>
  C7 (as amended). \<open>parseTweets\<close> returns a list for every page: the empty list when the
  page has no \<open>data\<close>, and otherwise one record per item, in order, with the item's own
  identity and author identity. In the record of an item, every metric is zero when
  the item has no metrics block, a metric missing from the block is zero, the three
  entity lists are empty when the item has no entities, an entity list missing from
  the entities is empty, and when no user of the side table has the key of the item's
  author and that key is not the name of a function that every JavaScript object
  inherits, the handle and the display name are both the placeholder \<open>?\<close> (which the
  permalink uses too).
\<close>

theorem parseTweets_defaults:
  "(data raw = None \<longrightarrow> parseTweets raw = [])
   \<and> (data raw = Some items \<longrightarrow>
        length (parseTweets raw) = length items
      \<and> (\<forall>i<length items.
           tweet_id (parseTweets raw ! i) = raw_id (items ! i)
         \<and> author_id (parseTweets raw ! i) = raw_author_id (items ! i)
         \<and> (public_metrics (items ! i) = None \<longrightarrow>
              metrics (parseTweets raw ! i) =
                \<lparr> likes = 0, retweets = 0, replies = 0, quotes = 0, impressions = 0,
                  bookmarks = 0 \<rparr>)
         \<and> (\<forall>m. public_metrics (items ! i) = Some m \<longrightarrow>
              (like_count m = None \<longrightarrow> likes (metrics (parseTweets raw ! i)) = 0)
            \<and> (retweet_count m = None \<longrightarrow> retweets (metrics (parseTweets raw ! i)) = 0)
            \<and> (reply_count m = None \<longrightarrow> replies (metrics (parseTweets raw ! i)) = 0)
            \<and> (quote_count m = None \<longrightarrow> quotes (metrics (parseTweets raw ! i)) = 0)
            \<and> (impression_count m = None \<longrightarrow> impressions (metrics (parseTweets raw ! i)) = 0)
            \<and> (bookmark_count m = None \<longrightarrow> bookmarks (metrics (parseTweets raw ! i)) = 0))
         \<and> (entities (items ! i) = None \<longrightarrow>
              urls (parseTweets raw ! i) = [] \<and> mentions (parseTweets raw ! i) = []
            \<and> hashtags (parseTweets raw ! i) = [])
         \<and> (\<forall>e. entities (items ! i) = Some e \<longrightarrow>
              (entity_urls e = None \<longrightarrow> urls (parseTweets raw ! i) = [])
            \<and> (entity_mentions e = None \<longrightarrow> mentions (parseTweets raw ! i) = [])
            \<and> (entity_hashtags e = None \<longrightarrow> hashtags (parseTweets raw ! i) = []))
         \<and> ((\<forall>u \<in> set (or_list (case includes' raw of None \<Rightarrow> None | Some inc \<Rightarrow> users inc)).
                to_string (user_id u) \<noteq> to_string (raw_author_id (items ! i)))
            \<and> to_string (raw_author_id (items ! i)) \<notin> set Object_prototype_functions \<longrightarrow>
              username (parseTweets raw ! i) = ''?'' \<and> name (parseTweets raw ! i) = ''?''
            \<and> tweet_url (parseTweets raw ! i) =
                ''https://x.com/?/status/'' @ to_string (raw_id (items ! i)))))"
proof (intro conjI impI allI)
  assume "data raw = None"
  then show "parseTweets raw = []" by (simp add: parseTweets_def)
next
  assume d: "data raw = Some items"
  then show "length (parseTweets raw) = length items" by (simp add: parseTweets_def)
next
  fix i
  assume d: "data raw = Some items" and i: "i < length items"
  let ?table = "users_table (or_list (case includes' raw of None \<Rightarrow> None | Some inc \<Rightarrow> users inc))"
  from d i have nth: "parseTweets raw ! i = parseTweet ?table (items ! i)"
    by (simp add: parseTweets_def)
  show "tweet_id (parseTweets raw ! i) = raw_id (items ! i)"
    by (simp add: nth parseTweet_identity)
  show "author_id (parseTweets raw ! i) = raw_author_id (items ! i)"
    by (simp add: nth parseTweet_identity)
  {
    assume "public_metrics (items ! i) = None"
    then show "metrics (parseTweets raw ! i) =
                \<lparr> likes = 0, retweets = 0, replies = 0, quotes = 0, impressions = 0,
                  bookmarks = 0 \<rparr>"
      by (simp add: nth parseTweet_no_metrics)
  }
  {
    assume "entities (items ! i) = None"
    then show "urls (parseTweets raw ! i) = []" "mentions (parseTweets raw ! i) = []"
      "hashtags (parseTweets raw ! i) = []"
      by (simp_all add: nth parseTweet_no_entities)
  }
  {
    fix m assume m: "public_metrics (items ! i) = Some m"
    { assume "like_count m = None"
      then show "likes (metrics (parseTweets raw ! i)) = 0"
        by (simp add: nth parseTweet_missing_metric[OF m]) }
    { assume "retweet_count m = None"
      then show "retweets (metrics (parseTweets raw ! i)) = 0"
        by (simp add: nth parseTweet_missing_metric[OF m]) }
    { assume "reply_count m = None"
      then show "replies (metrics (parseTweets raw ! i)) = 0"
        by (simp add: nth parseTweet_missing_metric[OF m]) }
    { assume "quote_count m = None"
      then show "quotes (metrics (parseTweets raw ! i)) = 0"
        by (simp add: nth parseTweet_missing_metric[OF m]) }
    { assume "impression_count m = None"
      then show "impressions (metrics (parseTweets raw ! i)) = 0"
        by (simp add: nth parseTweet_missing_metric[OF m]) }
    { assume "bookmark_count m = None"
      then show "bookmarks (metrics (parseTweets raw ! i)) = 0"
        by (simp add: nth parseTweet_missing_metric[OF m]) }
  }
  {
    fix e assume e: "entities (items ! i) = Some e"
    { assume "entity_urls e = None"
      then show "urls (parseTweets raw ! i) = []"
        by (simp add: nth parseTweet_missing_entity[OF e]) }
    { assume "entity_mentions e = None"
      then show "mentions (parseTweets raw ! i) = []"
        by (simp add: nth parseTweet_missing_entity[OF e]) }
    { assume "entity_hashtags e = None"
      then show "hashtags (parseTweets raw ! i) = []"
        by (simp add: nth parseTweet_missing_entity[OF e]) }
  }
  {
    assume "(\<forall>u \<in> set (or_list (case includes' raw of None \<Rightarrow> None | Some inc \<Rightarrow> users inc)).
                to_string (user_id u) \<noteq> to_string (raw_author_id (items ! i)))
            \<and> to_string (raw_author_id (items ! i)) \<notin> set Object_prototype_functions"
    then have "get_property ?table (to_string (raw_author_id (items ! i))) = empty_user"
      by (simp add: users_table_unknown)
    from parseTweet_unknown_author[of ?table "items ! i", OF this]
    show "username (parseTweets raw ! i) = ''?''" "name (parseTweets raw ! i) = ''?''"
      "tweet_url (parseTweets raw ! i) = ''https://x.com/?/status/'' @ to_string (raw_id (items ! i))"
      by (simp_all add: nth)
  }
qed

text \<open>
  C7 on a page with one item that has no metrics, no entities and an author the side
  table does not know.
\<close>

theorem parseTweets_defaults_witness:
  "parseTweets (sample_page [bare_item ''2'' ''42''] None) =
     [\<lparr> tweet_id = Some ''2'', tweet_text = None, author_id = Some ''42'', username = ''?'',
        name = ''?'', created_at = None, conversation_id = None,
        metrics = \<lparr> likes = 0, retweets = 0, replies = 0, quotes = 0, impressions = 0,
                    bookmarks = 0 \<rparr>,
        urls = [], mentions = [], hashtags = [], tweet_url = ''https://x.com/?/status/2'' \<rparr>]"
  using parseTweets_defaults[of "sample_page [bare_item ''2'' ''42''] None" "[bare_item ''2'' ''42'']"]
  by (simp add: example_eval)

text \<open>
  The side table is a plain object. An author identity that is the name of an
  inherited function finds that function, whose name becomes the display name; an
  author identity \<open>__proto__\<close> finds the user whose identity is \<open>__proto__\<close>, which the
  table holds as its prototype.
\<close>

lemma inherited_member_examples:
  "parseTweets (sample_page [bare_item ''1'' ''constructor''] None) =
     [\<lparr> tweet_id = Some ''1'', tweet_text = None, author_id = Some ''constructor'',
        username = ''?'', name = ''Object'', created_at = None, conversation_id = None,
        metrics = \<lparr> likes = 0, retweets = 0, replies = 0, quotes = 0, impressions = 0,
                    bookmarks = 0 \<rparr>,
        urls = [], mentions = [], hashtags = [], tweet_url = ''https://x.com/?/status/1'' \<rparr>]"
  "map name (parseTweets (sample_page [bare_item ''1'' ''valueOf''] None)) = [''valueOf'']"
  "map username
     (parseTweets
        \<lparr> data = Some [bare_item ''1'' ''__proto__'', bare_item ''2'' ''id''],
          includes' = Some \<lparr> users = Some [\<lparr> user_id = Some ''__proto__'',
                                             user_username = Some ''bob'',
                                             user_name = Some ''Bob'' \<rparr>] \<rparr>,
          meta = None \<rparr>) = [''bob'', ''?'']"
  by (simp_all add: example_eval)

text \<open>
  C7 (as stated) names the placeholder \<open>unknown\<close>: for an item whose author 42 is not in
  the side table, the handle and the name are \<open>?\<close>, not \<open>unknown\<close>, and the author
  identity stays 42.
\<close>

theorem unknown_author_counterexample:
  "username (parseTweets (sample_page [bare_item ''2'' ''42''] None) ! 0) = ''?''
   \<and> name (parseTweets (sample_page [bare_item ''2'' ''42''] None) ! 0) = ''?''
   \<and> author_id (parseTweets (sample_page [bare_item ''2'' ''42''] None) ! 0) = Some ''42''
   \<and> username (parseTweets (sample_page [bare_item ''2'' ''42''] None) ! 0) \<noteq> ''unknown''
   \<and> name (parseTweets (sample_page [bare_item ''2'' ''42''] None) ! 0) \<noteq> ''unknown''
   \<and> author_id (parseTweets (sample_page [bare_item ''2'' ''42''] None) ! 0) \<noteq> Some ''unknown''"
  by (simp add: example_eval)



subsection \<open>Rate limiting\<close>

text \<open>
  On a response with status 429 \<open>apiGet\<close> issues its one request and fails with the
  rate-limit error; inside the loop of \<open>search\<close> the loop ends there, with no further
  request.
\<close>

lemma rate_limited_once:
  assumes cred: "getToken env_token conf_token = Inr token" and limited: "status res = 429"
  shows "apiGet env_token conf_token now (Reply res) url trace =
           (Inl (RateLimited (waitSec (rate_limit_reset res) now)), trace @ [Fetch url])"
    and "remote page = Reply res \<Longrightarrow> int page < pgs \<Longrightarrow>
           search_loop env_token conf_token clock remote url pgs page nextToken allTweets trace =
             (Inl (RateLimited (waitSec (rate_limit_reset res) (clock page))),
              trace @ [Fetch (url \<lparr> req_pagination_token :=
                                     (if truthy nextToken then nextToken else None) \<rparr>)])"
proof -
  show "apiGet env_token conf_token now (Reply res) url trace =
           (Inl (RateLimited (waitSec (rate_limit_reset res) now)), trace @ [Fetch url])"
    by (rule apiGet_429[OF cred limited])
  show "search_loop env_token conf_token clock remote url pgs page nextToken allTweets trace =
             (Inl (RateLimited (waitSec (rate_limit_reset res) (clock page))),
              trace @ [Fetch (url \<lparr> req_pagination_token :=
                                     (if truthy nextToken then nextToken else None) \<rparr>)])"
    if "remote page = Reply res" "int page < pgs"
    using that by (subst search_loop.simps) (simp add: apiGet_429[OF cred limited] Let_def)
qed

text \<open>
  The wait at the time 1793664000 s: 60 seconds with no header or an empty one, the
  distance to a reset ahead, one second for a reset in the past, a rounded double for
  a long run of digits, and not a number when the header has no leading digits.
\<close>

lemma waitSec_examples:
  "waitSec None 1793664000000 = Finite 60"
  "waitSec (Some []) 1793664000000 = Finite 60"
  "waitSec (Some ''1793664900'') 1793664000000 = Finite 900"
  "waitSec (Some ''1793663000'') 1793664000000 = Finite 1"
  "waitSec (Some ''99999999999999999999'') 1793664000000 = Finite 99999999998206328832"
  "waitSec (Some ''soon'') 1793664000000 = NaN"
  by (simp_all add: waitSec_def truthy_def to_string_def parseInt_eval)

text \<open>
  C8, at the failing input: a response with status 429 whose reset header is the text
  \<open>soon\<close>. \<open>parseInt\<close> gives \<open>NaN\<close>, \<open>Math.max\<close> of \<open>NaN\<close> and 1 is \<open>NaN\<close>, and the error that
  \<open>apiGet\<close> raises carries a wait that is not a number.
\<close>

theorem rate_limit_wait_not_a_number:
  "apiGet (Some ''token'') None 1793664000000 (Reply (limited_response (Some ''soon'')))
       sample_request [] = (Inl (RateLimited NaN), [Fetch sample_request])
   \<and> status (limited_response (Some ''soon'')) = 429
   \<and> rate_limit_reset (limited_response (Some ''soon'')) = Some ''soon''"
  by (simp add: api_eval)

subsection \<open>Deduplication\<close>

lemma dedupe_filter_not_seen:
  "t \<in> set (dedupe_filter seen ts) \<Longrightarrow> tweet_id t \<notin> seen"
  by (induction ts arbitrary: seen) (auto split: if_splits)

lemma dedupe_filter_idem:
  "dedupe_filter seen (dedupe_filter seen ts) = dedupe_filter seen ts"
  by (induction ts arbitrary: seen) auto

lemma dedupe_filter_distinct:
  "distinct (map tweet_id (dedupe_filter seen ts))"
  by (induction ts arbitrary: seen) (auto dest: dedupe_filter_not_seen)

lemma dedupe_filter_subseq: "subseq (dedupe_filter seen ts) ts"
  by (induction ts arbitrary: seen) auto

lemma dedupe_filter_nths:
  "dedupe_filter seen ts =
     nths ts {i. tweet_id (ts ! i) \<notin> seen \<and> (\<forall>j<i. tweet_id (ts ! j) \<noteq> tweet_id (ts ! i))}"
proof (induction ts arbitrary: seen)
  case Nil
  then show ?case by simp
next
  case (Cons t ts)
  let ?A = "{i. tweet_id ((t # ts) ! i) \<notin> seen \<and>
               (\<forall>j<i. tweet_id ((t # ts) ! j) \<noteq> tweet_id ((t # ts) ! i))}"
  let ?B = "{j. tweet_id (ts ! j) \<notin> insert (tweet_id t) seen \<and>
               (\<forall>k<j. tweet_id (ts ! k) \<noteq> tweet_id (ts ! j))}"
  have shift: "{j. Suc j \<in> ?A} = ?B"
    by (auto simp: All_less_Suc2)
  have zero: "0 \<in> ?A \<longleftrightarrow> tweet_id t \<notin> seen"
    by simp
  have split: "nths (t # ts) ?A = (if tweet_id t \<notin> seen then [t] else []) @ nths ts ?B"
    unfolding nths_Cons shift zero by simp
  show ?case
  proof (cases "tweet_id t \<in> seen")
    case True
    then have "insert (tweet_id t) seen = seen" by (simp add: insert_absorb)
    with True show ?thesis
      unfolding split using Cons.IH[of seen] by simp
  next
    case False
    then show ?thesis
      unfolding split using Cons.IH[of "insert (tweet_id t) seen"] by simp
  qed
qed

lemma dedupe_nths:
  "dedupe X = nths X {i. \<forall>j<i. tweet_id (X ! j) \<noteq> tweet_id (X ! i)}"
  using dedupe_filter_nths[of "{}" X] by (simp add: dedupe_def)

text \<open>
  C9. \<open>dedupe\<close> is idempotent; \<open>dedupe X\<close> is the list of the records of \<open>X\<close> at the
  positions that no earlier position shares its identity with, in the order of \<open>X\<close>; it
  is a subsequence of \<open>X\<close>, and no identity occurs twice in it.
\<close>

theorem dedupe_first_occurrences:
  "dedupe (dedupe X) = dedupe X
   \<and> dedupe X = nths X {i. \<forall>j<i. tweet_id (X ! j) \<noteq> tweet_id (X ! i)}
   \<and> subseq (dedupe X) X
   \<and> distinct (map tweet_id (dedupe X))"
proof -
  have "dedupe (dedupe X) = dedupe X"
    by (simp add: dedupe_def dedupe_filter_idem)
  moreover have "subseq (dedupe X) X"
    by (simp add: dedupe_def dedupe_filter_subseq)
  moreover have "distinct (map tweet_id (dedupe X))"
    by (simp add: dedupe_def dedupe_filter_distinct)
  ultimately show ?thesis using dedupe_nths[of X] by blast
qed

text \<open>
  C9 on five records with the identities 1, 2, 1, 3, 2.
\<close>

theorem dedupe_first_occurrences_witness:
  "dedupe (dedupe [sample_tweet ''1'' ''a'', sample_tweet ''2'' ''b'', sample_tweet ''1'' ''c'',
                   sample_tweet ''3'' ''d'', sample_tweet ''2'' ''e''])
     = [sample_tweet ''1'' ''a'', sample_tweet ''2'' ''b'', sample_tweet ''3'' ''d'']
   \<and> dedupe [sample_tweet ''1'' ''a'', sample_tweet ''2'' ''b'', sample_tweet ''1'' ''c'',
             sample_tweet ''3'' ''d'', sample_tweet ''2'' ''e'']
     = [sample_tweet ''1'' ''a'', sample_tweet ''2'' ''b'', sample_tweet ''3'' ''d'']"
proof -
  have run: "dedupe [sample_tweet ''1'' ''a'', sample_tweet ''2'' ''b'', sample_tweet ''1'' ''c'',
             sample_tweet ''3'' ''d'', sample_tweet ''2'' ''e'']
     = [sample_tweet ''1'' ''a'', sample_tweet ''2'' ''b'', sample_tweet ''3'' ''d'']"
    by (simp add: dedupe_def sample_tweet_def)
  from dedupe_first_occurrences[of "[sample_tweet ''1'' ''a'', sample_tweet ''2'' ''b'',
         sample_tweet ''1'' ''c'', sample_tweet ''3'' ''d'', sample_tweet ''2'' ''e'']"]
  have "dedupe (dedupe [sample_tweet ''1'' ''a'', sample_tweet ''2'' ''b'', sample_tweet ''1'' ''c'',
                   sample_tweet ''3'' ''d'', sample_tweet ''2'' ''e''])
     = dedupe [sample_tweet ''1'' ''a'', sample_tweet ''2'' ''b'', sample_tweet ''1'' ''c'',
                   sample_tweet ''3'' ''d'', sample_tweet ''2'' ''e'']"
    by blast
  with run show ?thesis by simp
qed

subsection \<open>parseSince\<close>

text \<open>
  Where \<open>parseSince\<close> does return: a string that is no shorthand never throws, and the
  usual shorthands give the stamp of the start time.
\<close>

lemma parseSince_other_never_throws:
  "match_shorthand s = None \<Longrightarrow>
     parseSince dateParse now s =
       Inr (if CHR ''T'' \<in> set s \<or> CHR ''-'' \<in> set s
            then map_option ISO (new_Date (dateParse s)) else None)"
  by (simp add: parseSince_def toISOString_def split: option.splits)

lemma parseSince_examples:
  "parseSince dateParse 1793664000000 ''7d'' = Inr (Some (ISO 1793059200000))"
  "parseSince dateParse 1793664000000 ''90m'' = Inr (Some (ISO 1793658600000))"
  "parseSince dateParse 1793664000000 ''yesterday'' = Inr None"
  by (simp_all add: parseSince_def match_shorthand_def parseInt_eval toISOString_def)

text \<open>
  C10, at the failing input: the shorthand \<open>300000000d\<close> matches the regular expression,
  its start time lies before the earliest date of a \<open>Date\<close> at every valid current time,
  and \<open>toISOString\<close> on the invalid date throws a \<open>RangeError\<close>, outside any \<open>try\<close>.
\<close>

theorem parseSince_throws:
  "0 \<le> now \<Longrightarrow> now \<le> 8640000000000000 \<Longrightarrow>
     parseSince dateParse now ''300000000d'' = Inl RangeError"
proof -
  assume "0 \<le> now" and le: "now \<le> 8640000000000000"
  have m: "match_shorthand ''300000000d'' = Some (''300000000'', CHR ''d'')"
    by (simp add: match_shorthand_def is_digit_def)
  have n: "parseInt ''300000000'' = Finite 300000000"
    by (simp add: parseInt_eval)
  have ms: "to_double 25920000000000000 = Finite 25920000000000000"
    by (simp add: round64_eval)
  from le have "(of_int now :: rat) \<le> 8640000000000000" 
    by (metis of_int_le_iff of_int_numeral)
  then have "(of_int now :: rat) - 25920000000000000 \<le> - 17280000000000000" by simp
  from far_past_invalid[OF this]
  have "new_Date_number (js_sub (Finite (of_int now)) (Finite 25920000000000000)) = None"
    by simp
  then show ?thesis
    by (simp add: parseSince_def m n ms toISOString_def)
qed

text \<open>
  C10 at the current time 1793664000000 ms.
\<close>

theorem parseSince_throws_witness:
  "(0::int) \<le> 1793664000000 \<and> (1793664000000::int) \<le> 8640000000000000
   \<and> parseSince (\<lambda>s. None) 1793664000000 ''300000000d'' = Inl RangeError"
  using parseSince_throws[of 1793664000000 "\<lambda>s. None"] by simp

end
